theory Spec2Isabelle
  imports Main "HOL-Library.Sublist"
begin

section \<open>Python strings\<close>

text \<open>
  A Python \<open>str\<close> is modelled as a \<^typ>\<open>string\<close>; a \<^typ>\<open>char\<close> stands for the code point
  of the same number, so the model covers the code points below 256.  The classifications
  below are Python's own for this range: \<open>str.isspace\<close> (used by \<open>str.strip\<close>,
  \<open>str.split\<close> and the regular expression class \<open>\s\<close>), the class \<open>\w\<close> of a
  \<open>str\<close> pattern (alphanumeric or underscore) and \<open>str.lower\<close>.
\<close>

abbreviation (input) SQ :: char where "SQ \<equiv> CHR 0x27"
abbreviation (input) DQ :: char where "DQ \<equiv> CHR 0x22"
abbreviation (input) NL :: char where "NL \<equiv> CHR 0x0A"
abbreviation (input) BACKSLASH :: char where "BACKSLASH \<equiv> CHR 0x5C"

definition isspace :: "char \<Rightarrow> bool" where
  "isspace c \<longleftrightarrow> c \<in> set [CHR 0x09, CHR 0x0A, CHR 0x0B, CHR 0x0C, CHR 0x0D,
     CHR 0x1C, CHR 0x1D, CHR 0x1E, CHR 0x1F, CHR 0x20, CHR 0x85, CHR 0xA0]"

definition in_range :: "int \<Rightarrow> int \<Rightarrow> char \<Rightarrow> bool" where
  "in_range lo hi c \<longleftrightarrow> lo \<le> of_char c \<and> (of_char c :: int) \<le> hi"

definition ascii_alnum :: "char \<Rightarrow> bool" where
  "ascii_alnum c \<longleftrightarrow> in_range 48 57 c \<or> in_range 65 90 c \<or> in_range 97 122 c"

definition is_word :: "char \<Rightarrow> bool" where
  "is_word c \<longleftrightarrow> ascii_alnum c \<or> c = CHR ''_''
     \<or> c \<in> set [CHR 0xAA, CHR 0xB2, CHR 0xB3, CHR 0xB5, CHR 0xB9, CHR 0xBA, CHR 0xBC, CHR 0xBD, CHR 0xBE]
     \<or> in_range 192 214 c \<or> in_range 216 246 c \<or> in_range 248 255 c"

definition lower_char :: "char \<Rightarrow> char" where
  "lower_char c = (if in_range 65 90 c \<or> in_range 192 214 c \<or> in_range 216 222 c
                   then char_of (of_char c + (32::int)) else c)"

definition str_lower :: "string \<Rightarrow> string" where
  "str_lower s = map lower_char s"

definition str_strip :: "string \<Rightarrow> string" where
  "str_strip s = rev (dropWhile isspace (rev (dropWhile isspace s)))"

text \<open>\<open>str.split()\<close> without a separator: the maximal runs of non-whitespace characters.
  \<open>split_from cur s\<close> has read the run \<open>cur\<close> so far.\<close>

fun split_from :: "string \<Rightarrow> string \<Rightarrow> string list" where
  "split_from cur [] = (if cur = [] then [] else [cur])"
| "split_from cur (c # cs) =
     (if isspace c then (if cur = [] then split_from [] cs else cur # split_from [] cs)
      else split_from (cur @ [c]) cs)"

definition str_split :: "string \<Rightarrow> string list" where
  "str_split s = split_from [] s"

fun str_join :: "string \<Rightarrow> string list \<Rightarrow> string" where
  "str_join sep [] = []"
| "str_join sep [x] = x"
| "str_join sep (x # y # ys) = x @ sep @ str_join sep (y # ys)"

fun startswith :: "string \<Rightarrow> string \<Rightarrow> bool" where
  "startswith [] s = True"
| "startswith (c # w) [] = False"
| "startswith (c # w) (d # s) = (c = d \<and> startswith w s)"

subsection \<open>\<open>shlex.quote\<close>\<close>

text \<open>The standard library's \<open>shlex.quote\<close>: the empty string becomes two apostrophes, a
  string of safe characters (\<open>[A-Za-z0-9_@%+=:,./-]\<close>) is returned as it is, any other
  string is wrapped in apostrophes, each apostrophe of its own replaced by \<open>'"'"'\<close>.\<close>

definition shlex_safe :: "char \<Rightarrow> bool" where
  "shlex_safe c \<longleftrightarrow> ascii_alnum c \<or> c \<in> set ''_@%+=:,./-''"

definition shlex_quote :: "string \<Rightarrow> string" where
  "shlex_quote s =
     (if s = [] then [SQ, SQ]
      else if list_all shlex_safe s then s
      else [SQ] @ concat (map (\<lambda>c. if c = SQ then [SQ, DQ, SQ, DQ, SQ] else [c]) s) @ [SQ])"

subsection \<open>\<open>os.path\<close> (POSIX flavour)\<close>

definition path_join :: "string \<Rightarrow> string \<Rightarrow> string" where
  "path_join a b =
     (if startswith ''/'' b then b
      else if a = [] \<or> last a = CHR ''/'' then a @ b
      else a @ ''/'' @ b)"

definition basename :: "string \<Rightarrow> string" where
  "basename p = rev (takeWhile (\<lambda>c. c \<noteq> CHR ''/'') (rev p))"

section \<open>Regular expressions\<close>

text \<open>
  The fragment of Python's \<open>re\<close> that the pattern table uses, as a backtracking matcher in
  continuation-passing style: alternatives are tried left to right, \<open>?\<close>, \<open>*\<close> and \<open>+\<close>
  are greedy, and the first complete match found is the result, as in \<open>re\<close>.
  \<open>Lit\<close> matches a literal under \<open>re.IGNORECASE\<close>; \<open>Star\<close> and \<open>Plus\<close> repeat a
  single-character class, the only repetitions in the table; \<open>Grp\<close> is a capture group
  (the groups of the table are neither nested nor optional, so they close left to right).
\<close>

datatype regex =
    Lit string
  | Seq regex regex
  | Alt regex regex
  | Opt regex
  | Star "char \<Rightarrow> bool"
  | Plus "char \<Rightarrow> bool"
  | Grp regex

fun lit_prefix :: "string \<Rightarrow> string \<Rightarrow> string option" where
  "lit_prefix [] s = Some s"
| "lit_prefix (c # w) [] = None"
| "lit_prefix (c # w) (d # s) = (if lower_char d = lower_char c then lit_prefix w s else None)"

text \<open>\<open>greedy lo n s k\<close>: consume \<open>n\<close> characters, then \<open>n - 1\<close>, ... down to \<open>lo\<close>, until the
  continuation succeeds.\<close>

fun greedy :: "nat \<Rightarrow> nat \<Rightarrow> string \<Rightarrow> (string \<Rightarrow> 'a option) \<Rightarrow> 'a option" where
  "greedy lo n s k =
     (if n < lo then None
      else case k (drop n s) of
             Some r \<Rightarrow> Some r
           | None \<Rightarrow> (case n of 0 \<Rightarrow> None | Suc m \<Rightarrow> greedy lo m s k))"

fun rmatch :: "regex \<Rightarrow> string \<Rightarrow> string list \<Rightarrow> (string \<Rightarrow> string list \<Rightarrow> 'a option) \<Rightarrow> 'a option" where
  "rmatch (Lit w) s gs k = (case lit_prefix w s of None \<Rightarrow> None | Some s' \<Rightarrow> k s' gs)"
| "rmatch (Seq a b) s gs k = rmatch a s gs (\<lambda>s' gs'. rmatch b s' gs' k)"
| "rmatch (Alt a b) s gs k = (case rmatch a s gs k of Some r \<Rightarrow> Some r | None \<Rightarrow> rmatch b s gs k)"
| "rmatch (Opt a) s gs k = (case rmatch a s gs k of Some r \<Rightarrow> Some r | None \<Rightarrow> k s gs)"
| "rmatch (Star p) s gs k = greedy 0 (length (takeWhile p s)) s (\<lambda>s'. k s' gs)"
| "rmatch (Plus p) s gs k = greedy 1 (length (takeWhile p s)) s (\<lambda>s'. k s' gs)"
| "rmatch (Grp a) s gs k = rmatch a s gs (\<lambda>s' gs'. k s' (gs' @ [take (length s - length s') s]))"

text \<open>\<open>re.search(pattern, s).groups()\<close>: the match is attempted at every position from the
  left, the end of the string included; \<open>None\<close> when no position matches.\<close>

fun re_search :: "regex \<Rightarrow> string \<Rightarrow> string list option" where
  "re_search r [] = rmatch r [] [] (\<lambda>s' gs. Some gs)"
| "re_search r (c # s) =
     (case rmatch r (c # s) [] (\<lambda>s' gs. Some gs) of
        Some gs \<Rightarrow> Some gs
      | None \<Rightarrow> re_search r s)"

fun seqs :: "regex list \<Rightarrow> regex" where
  "seqs [] = Lit []"
| "seqs [r] = r"
| "seqs (r # rs) = Seq r (seqs rs)"

fun alts :: "string list \<Rightarrow> regex" where
  "alts [] = Lit []"
| "alts [w] = Lit w"
| "alts (w # ws) = Alt (Lit w) (alts ws)"

text \<open>The class \<open>[\w\s./\\-]\<close> of the slots, and \<open>.\<close> (any character but a newline).\<close>

definition path_char :: "char \<Rightarrow> bool" where
  "path_char c \<longleftrightarrow> is_word c \<or> isspace c \<or> c \<in> set [CHR ''.'', CHR ''/'', BACKSLASH, CHR ''-'']"

definition any_char :: "char \<Rightarrow> bool" where
  "any_char c \<longleftrightarrow> c \<noteq> NL"

section \<open>Exceptions, the operating system, the terminal's state\<close>

datatype exn_kind =
    FileNotFoundError | PermissionError | FileExistsError | NotADirectoryError
  | IsADirectoryError | IndexError | TypeError | OtherError

text \<open>An exception (a subclass of \<open>Exception\<close>) with its class and \<open>str(e)\<close>.\<close>

datatype py_exn = Exn (exn_class: exn_kind) (exn_str: string)

datatype command =
    PwdCommand | LsCommand | CdCommand | MkdirCommand | RmCommand | TouchCommand | CatCommand
  | EchoCommand | PsCommand | TopCommand | DfCommand
  | HistoryCommand | ClearCommand | ExitCommand | HelpCommand
  | NLPCommand | AutoCompleteCommand

fun command_name :: "command \<Rightarrow> string" where
  "command_name PwdCommand = ''pwd''"
| "command_name LsCommand = ''ls''"
| "command_name CdCommand = ''cd''"
| "command_name MkdirCommand = ''mkdir''"
| "command_name RmCommand = ''rm''"
| "command_name TouchCommand = ''touch''"
| "command_name CatCommand = ''cat''"
| "command_name EchoCommand = ''echo''"
| "command_name PsCommand = ''ps''"
| "command_name TopCommand = ''top''"
| "command_name DfCommand = ''df''"
| "command_name HistoryCommand = ''history''"
| "command_name ClearCommand = ''clear''"
| "command_name ExitCommand = ''exit''"
| "command_name HelpCommand = ''help''"
| "command_name NLPCommand = ''nlp''"
| "command_name AutoCompleteCommand = ''autocomplete''"

text \<open>
  The world outside the interpreter (file system, working directory, processes) is a
  state of type \<open>'fs\<close>; the library calls the modelled code makes on it are the fields of
  \<open>os_env\<close>.  A call that may raise returns the exception, if any, and the world it
  leaves.  \<open>other_execute\<close> stands for the \<open>execute\<close> methods whose bodies no property
  below depends on (\<open>pwd\<close>, \<open>ls\<close>, \<open>cd\<close>, \<open>mkdir\<close>, \<open>touch\<close>, \<open>cat\<close>, \<open>ps\<close>,
  \<open>top\<close>, \<open>df\<close>, \<open>history\<close>, \<open>help\<close>): they read the registered names and the
  history, act on the world, and return text or raise.
\<close>

record 'fs os_env =
  os_path_isdir :: "string \<Rightarrow> 'fs \<Rightarrow> bool"
  os_path_exists :: "string \<Rightarrow> 'fs \<Rightarrow> bool"
  shutil_move :: "string \<Rightarrow> string \<Rightarrow> 'fs \<Rightarrow> py_exn option \<times> 'fs"
  os_rename :: "string \<Rightarrow> string \<Rightarrow> 'fs \<Rightarrow> py_exn option \<times> 'fs"
  shutil_copytree :: "string \<Rightarrow> string \<Rightarrow> 'fs \<Rightarrow> py_exn option \<times> 'fs"
  shutil_copy2 :: "string \<Rightarrow> string \<Rightarrow> 'fs \<Rightarrow> py_exn option \<times> 'fs"
  shutil_rmtree :: "string \<Rightarrow> 'fs \<Rightarrow> py_exn option \<times> 'fs"
  os_remove :: "string \<Rightarrow> 'fs \<Rightarrow> py_exn option \<times> 'fs"
  other_execute :: "command \<Rightarrow> string list \<Rightarrow> string list \<Rightarrow> string list \<Rightarrow> 'fs \<Rightarrow> (py_exn + string) \<times> 'fs"

text \<open>The mutable state of a terminal: \<open>Terminal.command_history\<close>, the world, and
  \<open>AutoCompleteCommand.enabled\<close>.\<close>

record 'fs terminal =
  command_history :: "string list"
  world :: "'fs"
  autocomplete_enabled :: bool

type_synonym 'fs result = "(py_exn + string) \<times> 'fs terminal"

text \<open>\<open>Terminal.execute_command\<close> as the commands that hold the terminal call it back.\<close>

type_synonym 'fs callback = "string \<Rightarrow> 'fs terminal \<Rightarrow> 'fs result"

section \<open>The registry\<close>

text \<open>\<open>Terminal.commands\<close> is the dictionary that \<open>register_command\<close> fills, keyed by the
  command's own name.  A terminal is given by the sequence of its registrations.\<close>

definition register_command :: "command \<Rightarrow> (string \<rightharpoonup> command) \<Rightarrow> (string \<rightharpoonup> command)" where
  "register_command c cmds = cmds(command_name c \<mapsto> c)"

definition commands :: "command list \<Rightarrow> (string \<rightharpoonup> command)" where
  "commands regs = fold register_command regs Map.empty"

definition register_commands :: "command list" where
  "register_commands =
     [PwdCommand, LsCommand, CdCommand, MkdirCommand, RmCommand, TouchCommand, CatCommand,
      EchoCommand, PsCommand, TopCommand, DfCommand,
      HistoryCommand, ClearCommand, ExitCommand, HelpCommand]"

definition Terminal :: "command list" where
  "Terminal = register_commands"

definition AITerminal :: "command list" where
  "AITerminal = Terminal @ [NLPCommand, AutoCompleteCommand]"

definition parse_command :: "string \<Rightarrow> string \<times> string list" where
  "parse_command input_line =
     (case str_split (str_strip input_line) of
        [] \<Rightarrow> ([], [])
      | command # args \<Rightarrow> (command, args))"

section \<open>The literal commands\<close>

subsection \<open>\<open>RmCommand.execute\<close>\<close>

definition rm_prefix :: "string \<Rightarrow> string" where
  "rm_prefix path = ''rm: cannot remove '' @ [SQ] @ path @ [SQ] @ '': ''"

text \<open>The three \<open>except\<close> clauses of the loop body, in the source's order.\<close>

definition rm_except :: "bool \<Rightarrow> string \<Rightarrow> py_exn \<Rightarrow> string list" where
  "rm_except force path e =
     (if exn_class e = FileNotFoundError then
        (if \<not> force then [rm_prefix path @ ''No such file or directory''] else [])
      else if exn_class e = PermissionError then [rm_prefix path @ ''Permission denied'']
      else [rm_prefix path @ exn_str e])"

fun rm_paths :: "'fs os_env \<Rightarrow> bool \<Rightarrow> bool \<Rightarrow> string list \<Rightarrow> 'fs \<Rightarrow> string list \<times> 'fs" where
  "rm_paths os recursive force [] w = ([], w)"
| "rm_paths os recursive force (path # paths) w =
     (let (errors, w') =
        (if os_path_isdir os path w then
           (if recursive then
              (case shutil_rmtree os path w of
                 (None, w') \<Rightarrow> ([], w')
               | (Some e, w') \<Rightarrow> (rm_except force path e, w'))
            else ([rm_prefix path @ ''Is a directory''], w))
         else
           (case os_remove os path w of
              (None, w') \<Rightarrow> ([], w')
            | (Some e, w') \<Rightarrow> (rm_except force path e, w')));
          (errors', w'') = rm_paths os recursive force paths w'
      in (errors @ errors', w''))"

definition rm_execute :: "'fs os_env \<Rightarrow> string list \<Rightarrow> 'fs \<Rightarrow> string \<times> 'fs" where
  "rm_execute os args w =
     (if args = [] then (''rm: missing operand'', w)
      else
        let recursive = (''-r'' \<in> set args \<or> ''--recursive'' \<in> set args);
            force = (''-f'' \<in> set args \<or> ''--force'' \<in> set args);
            paths = filter (\<lambda>arg. \<not> startswith ''-'' arg) args;
            (errors, w') = rm_paths os recursive force paths w
        in (if errors \<noteq> [] then str_join [NL] errors else [], w'))"

subsection \<open>\<open>AutoCompleteCommand.execute\<close>\<close>

definition autocomplete_execute :: "string list \<Rightarrow> 'fs terminal \<Rightarrow> 'fs result" where
  "autocomplete_execute args t =
     (case args of
        [] \<Rightarrow>
          (let enabled = \<not> autocomplete_enabled t;
               status = (if enabled then ''enabled'' else ''disabled'')
           in (Inr (''Auto-completion is now '' @ status), t\<lparr>autocomplete_enabled := enabled\<rparr>))
      | a # _ \<Rightarrow>
          if str_lower a \<in> set [''on'', ''enable'', ''true'', ''1''] then
            (Inr ''Auto-completion is now enabled'', t\<lparr>autocomplete_enabled := True\<rparr>)
          else if str_lower a \<in> set [''off'', ''disable'', ''false'', ''0''] then
            (Inr ''Auto-completion is now disabled'', t\<lparr>autocomplete_enabled := False\<rparr>)
          else (Inr (''Invalid argument. Use '' @ [SQ] @ ''on'' @ [SQ] @ '' or '' @ [SQ] @ ''off'' @ [SQ] @ ''.''), t))"

section \<open>The natural-language command\<close>

subsection \<open>Handlers\<close>

text \<open>Every handler takes the terminal's \<open>execute_command\<close> (the field \<open>self.terminal\<close>) as
  \<open>exec\<close>.  The delegating handlers compose a command line and hand it to \<open>exec\<close>.\<close>

definition create_directory :: "'fs callback \<Rightarrow> string \<Rightarrow> 'fs terminal \<Rightarrow> 'fs result" where
  "create_directory exec directory_name t =
     (let directory_name = str_strip directory_name
      in exec (''mkdir '' @ shlex_quote directory_name) t)"

definition create_file :: "'fs callback \<Rightarrow> string \<Rightarrow> 'fs terminal \<Rightarrow> 'fs result" where
  "create_file exec file_name t =
     (let file_name = str_strip file_name
      in exec (''touch '' @ shlex_quote file_name) t)"

definition list_directory :: "'fs callback \<Rightarrow> string \<Rightarrow> 'fs terminal \<Rightarrow> 'fs result" where
  "list_directory exec directory t =
     (let directory = (if directory \<noteq> [] then str_strip directory else ''.'')
      in exec (''ls '' @ shlex_quote directory) t)"

definition show_file_content :: "'fs callback \<Rightarrow> string \<Rightarrow> 'fs terminal \<Rightarrow> 'fs result" where
  "show_file_content exec file_name t =
     (let file_name = str_strip file_name
      in exec (''cat '' @ shlex_quote file_name) t)"

definition remove_item :: "'fs os_env \<Rightarrow> 'fs callback \<Rightarrow> string \<Rightarrow> 'fs terminal \<Rightarrow> 'fs result" where
  "remove_item os exec item_name t =
     (let item_name = str_strip item_name
      in if os_path_isdir os item_name (world t)
         then exec (''rm -r '' @ shlex_quote item_name) t
         else exec (''rm '' @ shlex_quote item_name) t)"

text \<open>The direct handlers act on the world themselves, inside \<open>try ... except Exception\<close>.\<close>

definition move_item :: "'fs os_env \<Rightarrow> string \<Rightarrow> string \<Rightarrow> 'fs terminal \<Rightarrow> 'fs result" where
  "move_item os source destination t =
     (let source = str_strip source;
          destination = str_strip destination;
          dest_path = (if os_path_isdir os destination (world t)
                       then path_join destination (basename source)
                       else destination)
      in case shutil_move os source dest_path (world t) of
           (None, w') \<Rightarrow>
             (Inr (''Moved '' @ source @ '' to '' @ destination), t\<lparr>world := w'\<rparr>)
         | (Some e, w') \<Rightarrow>
             (Inr (''Error moving '' @ source @ '' to '' @ destination @ '': '' @ exn_str e),
              t\<lparr>world := w'\<rparr>))"

definition rename_item :: "'fs os_env \<Rightarrow> string \<Rightarrow> string \<Rightarrow> 'fs terminal \<Rightarrow> 'fs result" where
  "rename_item os old_name new_name t =
     (let old_name = str_strip old_name;
          new_name = str_strip new_name
      in case os_rename os old_name new_name (world t) of
           (None, w') \<Rightarrow>
             (Inr (''Renamed '' @ old_name @ '' to '' @ new_name), t\<lparr>world := w'\<rparr>)
         | (Some e, w') \<Rightarrow>
             (Inr (''Error renaming '' @ old_name @ '' to '' @ new_name @ '': '' @ exn_str e),
              t\<lparr>world := w'\<rparr>))"

definition copy_item :: "'fs os_env \<Rightarrow> string \<Rightarrow> string \<Rightarrow> 'fs terminal \<Rightarrow> 'fs result" where
  "copy_item os source destination t =
     (let source = str_strip source;
          destination = str_strip destination;
          w = world t;
          raised =
            (if os_path_isdir os source w then
               (let dest_path = (if os_path_exists os destination w
                                 then path_join destination (basename source)
                                 else destination)
                in shutil_copytree os source dest_path w)
             else
               (let dest_path = (if os_path_isdir os destination w
                                 then path_join destination (basename source)
                                 else destination)
                in shutil_copy2 os source dest_path w))
      in case raised of
           (None, w') \<Rightarrow>
             (Inr (''Copied '' @ source @ '' to '' @ destination), t\<lparr>world := w'\<rparr>)
         | (Some e, w') \<Rightarrow>
             (Inr (''Error copying '' @ source @ '' to '' @ destination @ '': '' @ exn_str e),
              t\<lparr>world := w'\<rparr>))"

definition change_directory :: "'fs callback \<Rightarrow> string \<Rightarrow> 'fs terminal \<Rightarrow> 'fs result" where
  "change_directory exec directory t =
     (let directory = str_strip directory
      in exec (''cd '' @ shlex_quote directory) t)"

definition list_processes :: "'fs callback \<Rightarrow> 'fs terminal \<Rightarrow> 'fs result" where
  "list_processes exec t = exec ''ps'' t"

definition show_resource_usage :: "'fs callback \<Rightarrow> 'fs terminal \<Rightarrow> 'fs result" where
  "show_resource_usage exec t = exec ''top'' t"

definition show_disk_usage :: "'fs callback \<Rightarrow> 'fs terminal \<Rightarrow> 'fs result" where
  "show_disk_usage exec t = exec ''df -h'' t"

definition show_current_directory :: "'fs callback \<Rightarrow> 'fs terminal \<Rightarrow> 'fs result" where
  "show_current_directory exec t = exec ''pwd'' t"

definition show_history :: "'fs callback \<Rightarrow> 'fs terminal \<Rightarrow> 'fs result" where
  "show_history exec t = exec ''history'' t"

definition show_help :: "'fs callback \<Rightarrow> 'fs terminal \<Rightarrow> 'fs result" where
  "show_help exec t = exec ''help'' t"

text \<open>\<open>re.search(r"(\w+)", command)\<close> picks the first word of the slot.\<close>

definition show_command_help :: "'fs callback \<Rightarrow> string \<Rightarrow> 'fs terminal \<Rightarrow> 'fs result" where
  "show_command_help exec command t =
     (let command = str_strip command
      in case re_search (Grp (Plus is_word)) command of
           Some (cmd # _) \<Rightarrow> exec (''help '' @ cmd) t
         | Some [] \<Rightarrow> (Inl (Exn IndexError ''no such group''), t)
         | None \<Rightarrow> exec ''help'' t)"

definition exit_terminal :: "'fs callback \<Rightarrow> 'fs terminal \<Rightarrow> 'fs result" where
  "exit_terminal exec t = exec ''exit'' t"

definition clear_screen :: "'fs callback \<Rightarrow> 'fs terminal \<Rightarrow> 'fs result" where
  "clear_screen exec t = exec ''clear'' t"

subsection \<open>The pattern table\<close>

datatype handler =
    H_create_directory | H_create_file | H_list_directory | H_show_file_content
  | H_remove_item | H_move_item | H_rename_item | H_copy_item | H_change_directory
  | H_list_processes | H_show_resource_usage | H_show_disk_usage | H_show_current_directory
  | H_show_history | H_show_help | H_show_command_help | H_exit_terminal | H_clear_screen

text \<open>\<open>handler(*match.groups())\<close>: the groups are the positional arguments, left to right;
  a number of groups the handler's signature does not take raises \<open>TypeError\<close>
  (\<open>_list_directory\<close> has a default for its argument).\<close>

definition type_error :: "'fs terminal \<Rightarrow> 'fs result" where
  "type_error t = (Inl (Exn TypeError ''wrong number of positional arguments''), t)"

definition call0 :: "('fs terminal \<Rightarrow> 'fs result) \<Rightarrow> string list \<Rightarrow> 'fs terminal \<Rightarrow> 'fs result" where
  "call0 f gs t = (case gs of [] \<Rightarrow> f t | _ \<Rightarrow> type_error t)"

definition call1 :: "(string \<Rightarrow> 'fs terminal \<Rightarrow> 'fs result) \<Rightarrow> string list \<Rightarrow> 'fs terminal \<Rightarrow> 'fs result" where
  "call1 f gs t = (case gs of [a] \<Rightarrow> f a t | _ \<Rightarrow> type_error t)"

definition call2 :: "(string \<Rightarrow> string \<Rightarrow> 'fs terminal \<Rightarrow> 'fs result) \<Rightarrow> string list \<Rightarrow> 'fs terminal \<Rightarrow> 'fs result" where
  "call2 f gs t = (case gs of [a, b] \<Rightarrow> f a b t | _ \<Rightarrow> type_error t)"

definition call_handler :: "'fs os_env \<Rightarrow> 'fs callback \<Rightarrow> handler \<Rightarrow> string list \<Rightarrow> 'fs terminal \<Rightarrow> 'fs result" where
  "call_handler os exec h gs t =
     (case h of
        H_create_directory \<Rightarrow> call1 (create_directory exec) gs t
      | H_create_file \<Rightarrow> call1 (create_file exec) gs t
      | H_list_directory \<Rightarrow>
          (case gs of [] \<Rightarrow> list_directory exec [] t | _ \<Rightarrow> call1 (list_directory exec) gs t)
      | H_show_file_content \<Rightarrow> call1 (show_file_content exec) gs t
      | H_remove_item \<Rightarrow> call1 (remove_item os exec) gs t
      | H_move_item \<Rightarrow> call2 (move_item os) gs t
      | H_rename_item \<Rightarrow> call2 (rename_item os) gs t
      | H_copy_item \<Rightarrow> call2 (copy_item os) gs t
      | H_change_directory \<Rightarrow> call1 (change_directory exec) gs t
      | H_list_processes \<Rightarrow> call0 (list_processes exec) gs t
      | H_show_resource_usage \<Rightarrow> call0 (show_resource_usage exec) gs t
      | H_show_disk_usage \<Rightarrow> call0 (show_disk_usage exec) gs t
      | H_show_current_directory \<Rightarrow> call0 (show_current_directory exec) gs t
      | H_show_history \<Rightarrow> call0 (show_history exec) gs t
      | H_show_help \<Rightarrow> call0 (show_help exec) gs t
      | H_show_command_help \<Rightarrow> call1 (show_command_help exec) gs t
      | H_exit_terminal \<Rightarrow> call0 (exit_terminal exec) gs t
      | H_clear_screen \<Rightarrow> call0 (clear_screen exec) gs t)"

text \<open>The capture groups \<open>([\w\s./\\-]+)\<close> and \<open>([\w\s./\\-]*)\<close>, and the table of
  \<open>NLPCommand.__init__\<close>, entry by entry in the source's order.\<close>

definition slot :: regex where
  "slot = Grp (Plus path_char)"

definition slot0 :: regex where
  "slot0 = Grp (Star path_char)"

definition command_patterns :: "(regex \<times> handler) list" where
  "command_patterns =
   [(seqs [Lit ''create '', Opt (Lit ''a ''), Opt (Lit ''new ''), alts [''directory'', ''folder''],
           Opt (alts ['' called'', '' named'']), Lit '' '', slot], H_create_directory),
    (seqs [Lit ''make '', Opt (Lit ''a ''), Opt (Lit ''new ''), alts [''directory'', ''folder''],
           Opt (alts ['' called'', '' named'']), Lit '' '', slot], H_create_directory),
    (seqs [Lit ''create '', Opt (Lit ''a ''), Opt (Lit ''new ''), Opt (Lit ''empty ''), Lit ''file'',
           Opt (alts ['' called'', '' named'']), Lit '' '', slot], H_create_file),
    (seqs [Lit ''touch '', Opt (Lit ''a ''), Opt (Lit ''new ''), Lit ''file'',
           Opt (alts ['' called'', '' named'']), Lit '' '', slot], H_create_file),
    (seqs [alts [''show'', ''list''], Lit '' '', Opt (Lit ''the ''), alts [''files'', ''contents''],
           Opt (alts ['' in'', '' of'']), Opt (Lit '' the''), Opt (Lit '' ''),
           Opt (alts [''directory'', ''folder'']), Opt (Lit '' ''), slot0], H_list_directory),
    (seqs [Lit ''what '', alts [''files'', ''directories''], Lit '' are '', alts [''in'', ''inside''],
           Opt (Lit '' ''), slot0], H_list_directory),
    (seqs [Lit ''show '', Opt (Lit ''me ''), Opt (Lit ''the ''), Lit ''content'', Opt (Lit ''s''),
           Lit '' of '', Opt (Lit ''file ''), slot], H_show_file_content),
    (seqs [alts [''read'', ''cat'', ''display'', ''print''], Lit '' '', Opt (Lit ''file ''), slot],
     H_show_file_content),
    (seqs [alts [''delete'', ''remove''], Lit '' '', Opt (alts [''file '', ''directory '', ''folder '']),
           slot], H_remove_item),
    (seqs [Lit ''move '', Opt (alts [''file '', ''directory '', ''folder '']), slot, Lit '' to '',
           Opt (alts [''directory '', ''folder '']), slot], H_move_item),
    (seqs [Lit ''rename '', Opt (alts [''file '', ''directory '', ''folder '']), slot, Lit '' to '',
           slot], H_rename_item),
    (seqs [Lit ''copy '', Opt (alts [''file '', ''directory '', ''folder '']), slot, Lit '' to '',
           Opt (alts [''directory '', ''folder '']), slot], H_copy_item),
    (seqs [Lit ''change '', Opt (Lit ''to ''), alts [''directory'', ''folder'', ''dir''], Lit '' '',
           slot], H_change_directory),
    (seqs [alts [''go'', ''navigate''], Lit '' to '', Opt (alts [''directory'', ''folder'', ''dir'']),
           Opt (Lit '' ''), slot], H_change_directory),
    (seqs [Lit ''cd '', Opt (Lit ''to ''), slot], H_change_directory),
    (seqs [alts [''show'', ''display'', ''list''], Lit '' '', Opt (Lit ''running ''), Lit ''processes''],
     H_list_processes),
    (seqs [alts [''show'', ''display''], Lit '' '', Opt (Lit ''system ''), Opt (Lit ''resource ''),
           Lit ''usage''], H_show_resource_usage),
    (seqs [alts [''show'', ''display''], Lit '' '', alts [''disk'', ''storage''], Lit '' '',
           alts [''usage'', ''space'', ''info'']], H_show_disk_usage),
    (seqs [alts [''what'', ''where''], Lit '' is '', Opt (Lit ''my ''), Lit ''current '',
           alts [''directory'', ''folder'', ''location'']], H_show_current_directory),
    (seqs [alts [''show'', ''display''], Lit '' '', Opt (Lit ''command ''), Lit ''history''],
     H_show_history),
    (seqs [alts [''show'', ''list'', ''display''], Lit '' '', Opt (Lit ''available ''), Lit ''commands''],
     H_show_help),
    (seqs [alts [''how to'', ''help'', ''help with''], Lit '' '', Grp (Star any_char)],
     H_show_command_help),
    (seqs [alts [''exit'', ''quit'', ''close''], Lit '' '', alts [''terminal'', ''program'', ''application'']],
     H_exit_terminal),
    (seqs [Lit ''clear '', Opt (Lit ''the ''), alts [''screen'', ''terminal'']], H_clear_screen)]"

subsection \<open>\<open>NLPCommand.execute\<close>\<close>

definition examples :: "string list" where
  "examples =
     [''create a new folder called Projects'',
      ''make a new directory named Backup'',
      ''create a new file called notes.txt'',
      ''show files in Downloads'',
      ''list contents of the current directory'',
      ''what files are in Documents'',
      ''show content of file.txt'',
      ''read config.ini'',
      ''delete file temp.txt'',
      ''remove directory OldStuff'',
      ''move file report.pdf to Documents'',
      ''rename file old.txt to new.txt'',
      ''copy file important.docx to Backup'',
      ''change to directory Projects'',
      ''go to Documents'',
      ''show running processes'',
      ''display system usage'',
      ''show disk space'',
      ''where is my current location'',
      ''show command history'',
      ''list available commands'',
      ''help with creating files'',
      ''clear the screen'',
      ''exit terminal'']"

definition show_examples :: string where
  "show_examples =
     ''Natural Language Command Examples:'' @ [NL] @
     str_join [NL] (map (\<lambda>example. ''  - '' @ example) examples)"

definition need_input :: string where
  "need_input = ''Please enter a natural language command. Type '' @ [SQ] @ ''nlp help'' @ [SQ] @
                '' for examples.''"

definition dont_understand :: "string \<Rightarrow> string" where
  "dont_understand query = ''I don'' @ [SQ] @ ''t understand '' @ [SQ] @ query @ [SQ] @
     ''. Type '' @ [SQ] @ ''nlp help'' @ [SQ] @ '' for examples of commands I understand.''"

text \<open>The \<open>for\<close> loop over \<open>self.command_patterns\<close>, with the \<open>return\<close> after it.\<close>

fun match_patterns :: "'fs os_env \<Rightarrow> 'fs callback \<Rightarrow> (regex \<times> handler) list \<Rightarrow> string \<Rightarrow> 'fs terminal \<Rightarrow> 'fs result" where
  "match_patterns os exec [] query t = (Inr (dont_understand query), t)"
| "match_patterns os exec ((pattern, handler) # rest) query t =
     (case re_search pattern query of
        Some groups \<Rightarrow> call_handler os exec handler groups t
      | None \<Rightarrow> match_patterns os exec rest query t)"

text \<open>\<open>nlp_execute os exec patterns\<close> is \<open>execute\<close> of the \<open>NLPCommand\<close> whose fields are
  \<open>terminal\<close> (with the method \<open>exec\<close>) and \<open>command_patterns = patterns\<close>.\<close>

definition nlp_execute :: "'fs os_env \<Rightarrow> 'fs callback \<Rightarrow> (regex \<times> handler) list \<Rightarrow> string list \<Rightarrow> 'fs terminal \<Rightarrow> 'fs result" where
  "nlp_execute os exec patterns args t =
     (let query = str_join '' '' args
      in if query = [] then (Inr need_input, t)
         else if str_lower query \<in> set [''help'', ''examples''] then (Inr show_examples, t)
         else match_patterns os exec patterns query t)"

section \<open>Dispatch\<close>

text \<open>\<open>command.execute(args)\<close>, by the class of the command.\<close>

definition command_execute :: "'fs os_env \<Rightarrow> 'fs callback \<Rightarrow> command list \<Rightarrow> command \<Rightarrow> string list \<Rightarrow> 'fs terminal \<Rightarrow> 'fs result" where
  "command_execute os exec regs c args t =
     (case c of
        RmCommand \<Rightarrow> (let (out, w') = rm_execute os args (world t) in (Inr out, t\<lparr>world := w'\<rparr>))
      | EchoCommand \<Rightarrow> (Inr (str_join '' '' args), t)
      | ClearCommand \<Rightarrow> (Inr ''__CLEAR__'', t)
      | ExitCommand \<Rightarrow> (Inr ''__EXIT__'', t)
      | NLPCommand \<Rightarrow> nlp_execute os exec command_patterns args t
      | AutoCompleteCommand \<Rightarrow> autocomplete_execute args t
      | _ \<Rightarrow> (let (r, w') = other_execute os c args (map command_name regs) (command_history t) (world t)
              in (r, t\<lparr>world := w'\<rparr>)))"

section \<open>A small world for concrete instances\<close>

text \<open>A file system that is two lists of names, with library calls that fail on a missing
  source; the commands whose bodies are not modelled echo their invocation.\<close>

record demo_fs =
  dirs :: "string list"
  files :: "string list"

definition missing :: "string \<Rightarrow> py_exn" where
  "missing p = Exn FileNotFoundError (''[Errno 2] No such file or directory: '' @ [SQ] @ p @ [SQ])"

definition demo_os :: "demo_fs os_env" where
  "demo_os =
     \<lparr>os_path_isdir = (\<lambda>p w. p \<in> set (dirs w)),
      os_path_exists = (\<lambda>p w. p \<in> set (dirs w) \<or> p \<in> set (files w)),
      shutil_move = (\<lambda>src dst w.
        if src \<in> set (files w) then (None, w\<lparr>files := dst # removeAll src (files w)\<rparr>)
        else (Some (missing src), w)),
      os_rename = (\<lambda>src dst w.
        if src \<in> set (files w) then (None, w\<lparr>files := dst # removeAll src (files w)\<rparr>)
        else (Some (missing src), w)),
      shutil_copytree = (\<lambda>src dst w.
        if src \<in> set (dirs w) then (None, w\<lparr>dirs := dst # dirs w\<rparr>)
        else (Some (missing src), w)),
      shutil_copy2 = (\<lambda>src dst w.
        if src \<in> set (files w) then (None, w\<lparr>files := dst # files w\<rparr>)
        else (Some (missing src), w)),
      shutil_rmtree = (\<lambda>p w. (None, w\<lparr>dirs := removeAll p (dirs w)\<rparr>)),
      os_remove = (\<lambda>p w.
        if p \<in> set (files w) then (None, w\<lparr>files := removeAll p (files w)\<rparr>)
        else (Some (missing p), w)),
      other_execute = (\<lambda>c args names history w. (Inr (str_join '' '' (command_name c # args)), w))\<rparr>"

definition demo_terminal :: "demo_fs terminal" where
  "demo_terminal =
     \<lparr>command_history = [],
      world = \<lparr>dirs = [''Documents''], files = [''report.pdf'']\<rparr>,
      autocomplete_enabled = False\<rparr>"

section \<open>\<open>Terminal.execute_command\<close>\<close>

text \<open>
  \<open>execute_command\<close> dispatches to \<open>NLPCommand.execute\<close>, whose handlers call
  \<open>execute_command\<close> again.  The recursion ends because no handler composes a line whose
  first token is \<open>nlp\<close>; the lemmas below establish that, as a congruence rule for
  \<open>command_execute\<close>: only the callback's values on such lines matter.
\<close>

subsection \<open>Tokenization\<close>

lemma split_from_nospace: "\<forall>c\<in>set w. \<not> isspace c \<Longrightarrow> split_from cur (w @ rest) = split_from (cur @ w) rest"
  by (induction w arbitrary: cur) auto

lemma split_from_dropWhile: "split_from [] (dropWhile isspace s) = split_from [] s"
  by (induction s) auto

lemma rstrip_allspace: "\<forall>x\<in>set s. isspace x \<Longrightarrow> rev (dropWhile isspace (rev s)) = []"
  by simp

lemma rstrip_Cons:
  "\<not> (\<forall>x\<in>set (c # cs). isspace x) \<Longrightarrow>
     rev (dropWhile isspace (rev (c # cs))) = c # rev (dropWhile isspace (rev cs))"
  by (auto simp: dropWhile_append)

lemma split_from_allspace: "\<forall>x\<in>set s. isspace x \<Longrightarrow> split_from cur s = (if cur = [] then [] else [cur])"
  by (induction s arbitrary: cur) auto

lemma split_from_rstrip: "split_from cur (rev (dropWhile isspace (rev s))) = split_from cur s"
proof (induction s arbitrary: cur)
  case Nil
  then show ?case by simp
next
  case (Cons c cs)
  show ?case
  proof (cases "\<forall>x\<in>set (c # cs). isspace x")
    case True
    have A: "rev (dropWhile isspace (rev (c # cs))) = []"
      using True by (rule rstrip_allspace)
    have B: "split_from cur (c # cs) = split_from cur []"
      by (subst split_from_allspace[OF True]) simp
    show ?thesis unfolding A B by (rule refl)
  next
    case False
    have A: "rev (dropWhile isspace (rev (c # cs))) = c # rev (dropWhile isspace (rev cs))"
      using False by (rule rstrip_Cons)
    show ?thesis unfolding A
      by (simp only: split_from.simps Cons.IH)
  qed
qed

lemma str_split_strip: "str_split (str_strip s) = str_split s"
  by (simp add: str_split_def str_strip_def split_from_rstrip split_from_dropWhile)

lemma parse_command_split:
  "parse_command l = (case str_split l of [] \<Rightarrow> ([], []) | c # args \<Rightarrow> (c, args))"
  by (simp add: parse_command_def str_split_strip)

lemma str_split_head:
  assumes "w \<noteq> []" "\<forall>c\<in>set w. \<not> isspace c"
  shows "str_split (w @ CHR '' '' # x) = w # str_split x"
  using assms by (simp add: str_split_def split_from_nospace isspace_def)

lemma str_split_word:
  assumes "w \<noteq> []" "\<forall>c\<in>set w. \<not> isspace c"
  shows "str_split w = [w]"
  using assms split_from_nospace[of w "[]" "[]"] by (simp add: str_split_def)

subsection \<open>The lines the handlers compose\<close>

lemma call_handler_agree:
  assumes "\<And>l s. fst (parse_command l) \<noteq> ''nlp'' \<Longrightarrow> exec l s = exec' l s"
  shows "call_handler os exec h gs t = call_handler os exec' h gs t"
  using assms
  by (cases h)
     (simp_all add: call_handler_def call0_def call1_def call2_def
        create_directory_def create_file_def list_directory_def show_file_content_def
        remove_item_def change_directory_def list_processes_def show_resource_usage_def
        show_disk_usage_def show_current_directory_def show_history_def show_help_def
        show_command_help_def exit_terminal_def clear_screen_def Let_def
        parse_command_split str_split_def isspace_def
        split: list.splits option.splits)

lemma match_patterns_agree:
  assumes "\<And>l s. fst (parse_command l) \<noteq> ''nlp'' \<Longrightarrow> exec l s = exec' l s"
  shows "match_patterns os exec ps q t = match_patterns os exec' ps q t"
  by (induction ps) (auto simp: call_handler_agree[OF assms] split: option.splits)

lemma command_execute_cong [fundef_cong]:
  assumes "os = os'" "regs = regs'" "c = c'" "args = args'" "t = t'"
    and "\<And>l s. c' = NLPCommand \<Longrightarrow> fst (parse_command l) \<noteq> ''nlp'' \<Longrightarrow> exec l s = exec' l s"
  shows "command_execute os exec regs c args t = command_execute os' exec' regs' c' args' t'"
proof (cases "c' = NLPCommand")
  case True
  then have "match_patterns os' exec ps q t' = match_patterns os' exec' ps q t'" for ps q
    using assms(6) by (intro match_patterns_agree) blast
  then show ?thesis
    using assms(1-5) True by (simp add: command_execute_def nlp_execute_def Let_def)
next
  case False
  then show ?thesis
    using assms(1-5) by (cases c') (simp_all add: command_execute_def)
qed

lemma commands_name_aux:
  "fold register_command regs m n = Some c \<Longrightarrow> m n = Some c \<or> command_name c = n"
proof (induction regs arbitrary: m)
  case Nil
  then show ?case by simp
next
  case (Cons a regs)
  from Cons.prems have "fold register_command regs (register_command a m) n = Some c"
    by simp
  from Cons.IH[OF this] show ?case
    by (auto simp: register_command_def split: if_splits)
qed

lemma commands_name: "commands regs n = Some c \<Longrightarrow> command_name c = n"
  using commands_name_aux[of regs Map.empty n c] by (simp add: commands_def)

subsection \<open>The dispatcher\<close>

function execute_command :: "'fs os_env \<Rightarrow> command list \<Rightarrow> string \<Rightarrow> 'fs terminal \<Rightarrow> 'fs result" where
  "execute_command os regs input_line t =
     (if str_strip input_line = [] then (Inr [], t)
      else
        let t = t\<lparr>command_history := command_history t @ [input_line]\<rparr>;
            (cmd_name, args) = parse_command input_line
        in case commands regs cmd_name of
             Some c \<Rightarrow> command_execute os (\<lambda>l s. execute_command os regs l s) regs c args t
           | None \<Rightarrow> (Inr (cmd_name @ '': command not found''), t))"
  by pat_completeness auto
termination
proof (relation "measure (\<lambda>(os, regs, l, t). if fst (parse_command l) = ''nlp'' then 1 else 0)")
  show "wf (measure (\<lambda>(os :: 'fs os_env, regs :: command list, l, t :: 'fs terminal).
          if fst (parse_command l) = ''nlp'' then 1 else 0 :: nat))"
    by simp
next
  fix os :: "'fs os_env" and regs :: "command list" and input_line :: string
    and t x :: "'fs terminal" and xa :: "string \<times> string list" and cmd_name :: string
    and args :: "string list" and c :: command and l :: string and s :: "'fs terminal"
  assume parsed: "(cmd_name, args) = xa" "xa = parse_command input_line"
    and found: "commands regs cmd_name = Some c" and nlp: "c = NLPCommand"
    and inner: "fst (parse_command l) \<noteq> ''nlp''"
  have "cmd_name = ''nlp''"
    using commands_name[OF found] nlp by simp
  then have "fst (parse_command input_line) = ''nlp''"
    using parsed by (metis fst_conv)
  then show "((os, regs, l, s), os, regs, input_line, t)
      \<in> measure (\<lambda>(os, regs, l, t). if fst (parse_command l) = ''nlp'' then 1 else 0)"
    using inner by simp
qed

declare execute_command.simps [simp del]

section \<open>The resolution engine\<close>

lemma match_patterns_skip:
  "\<forall>(p, h) \<in> set pre. re_search p query = None \<Longrightarrow>
     match_patterns os exec (pre @ rest) query t = match_patterns os exec rest query t"
  by (induction pre) auto

lemma nlp_execute_scan:
  assumes "str_join '' '' args = query" "query \<noteq> []"
    and "str_lower query \<notin> set [''help'', ''examples'']"
  shows "nlp_execute os exec patterns args t = match_patterns os exec patterns query t"
  using assms by (simp add: nlp_execute_def Let_def)



text \<open>
  \<^bold>\<open>C4.\<close>  For an utterance that is non-empty, is not a help keyword and matches no
  pattern of the table, resolution calls no handler (the state is returned unchanged and
  the callback is not used) and returns the fixed message that quotes the utterance and
  points to \<open>nlp help\<close>.
\<close>

theorem no_match_message:
  assumes "str_join '' '' args = query" and "query \<noteq> []"
    and "str_lower query \<notin> set [''help'', ''examples'']"
    and "\<forall>(p, h) \<in> set patterns. re_search p query = None"
  shows "nlp_execute os exec patterns args t
           = (Inr (''I don'' @ [SQ] @ ''t understand '' @ [SQ] @ query @ [SQ] @ ''. Type '' @ [SQ]
                   @ ''nlp help'' @ [SQ] @ '' for examples of commands I understand.''), t)"
proof -
  have "nlp_execute os exec patterns args t = match_patterns os exec patterns query t"
    using assms(1-3) by (rule nlp_execute_scan)
  also have "\<dots> = match_patterns os exec [] query t"
    using match_patterns_skip[OF assms(4), of os exec "[]" t] by simp
  finally show ?thesis by (simp add: dont_understand_def)
qed

theorem no_match_message_witness:
  "nlp_execute demo_os (execute_command demo_os AITerminal) command_patterns
      [''frobnicate'', ''the'', ''zonkulator''] demo_terminal
     = (Inr (''I don'' @ [SQ] @ ''t understand '' @ [SQ] @ ''frobnicate the zonkulator'' @ [SQ]
             @ ''. Type '' @ [SQ] @ ''nlp help'' @ [SQ] @ '' for examples of commands I understand.''),
        demo_terminal)"
proof -
  let ?q = "''frobnicate the zonkulator''"
  have a: "str_join '' '' [''frobnicate'', ''the'', ''zonkulator''] = ?q" by simp
  have b: "?q \<noteq> []" by simp
  have c: "str_lower ?q \<notin> set [''help'', ''examples'']" by code_simp
  have d: "\<forall>(p, h) \<in> set command_patterns. re_search p ?q = None" by code_simp
  show ?thesis by (rule no_match_message[OF a b c d])
qed

text \<open>
  \<^bold>\<open>C6.\<close>  For an utterance whose lower-cased text is one of the reserved keywords
  \<open>help\<close> and \<open>examples\<close>, resolution returns the static examples listing, the header
  line and the twenty-four examples written out below, and leaves the state unchanged,
  whatever the pattern table holds.
\<close>

theorem help_keyword_bypasses_table:
  assumes "str_lower (str_join '' '' args) \<in> set [''help'', ''examples'']"
  shows "nlp_execute os exec patterns args t
           = (Inr (''Natural Language Command Examples:'' @ [NL] @
                   ''  - create a new folder called Projects'' @ [NL] @
                   ''  - make a new directory named Backup'' @ [NL] @
                   ''  - create a new file called notes.txt'' @ [NL] @
                   ''  - show files in Downloads'' @ [NL] @
                   ''  - list contents of the current directory'' @ [NL] @
                   ''  - what files are in Documents'' @ [NL] @
                   ''  - show content of file.txt'' @ [NL] @
                   ''  - read config.ini'' @ [NL] @
                   ''  - delete file temp.txt'' @ [NL] @
                   ''  - remove directory OldStuff'' @ [NL] @
                   ''  - move file report.pdf to Documents'' @ [NL] @
                   ''  - rename file old.txt to new.txt'' @ [NL] @
                   ''  - copy file important.docx to Backup'' @ [NL] @
                   ''  - change to directory Projects'' @ [NL] @
                   ''  - go to Documents'' @ [NL] @
                   ''  - show running processes'' @ [NL] @
                   ''  - display system usage'' @ [NL] @
                   ''  - show disk space'' @ [NL] @
                   ''  - where is my current location'' @ [NL] @
                   ''  - show command history'' @ [NL] @
                   ''  - list available commands'' @ [NL] @
                   ''  - help with creating files'' @ [NL] @
                   ''  - clear the screen'' @ [NL] @
                   ''  - exit terminal''), t)"
proof -
  have "str_join '' '' args \<noteq> []"
    using assms by (auto simp: str_lower_def)
  then have "nlp_execute os exec patterns args t = (Inr show_examples, t)"
    using assms by (simp add: nlp_execute_def Let_def)
  moreover have "show_examples
           = ''Natural Language Command Examples:'' @ [NL] @
                   ''  - create a new folder called Projects'' @ [NL] @
                   ''  - make a new directory named Backup'' @ [NL] @
                   ''  - create a new file called notes.txt'' @ [NL] @
                   ''  - show files in Downloads'' @ [NL] @
                   ''  - list contents of the current directory'' @ [NL] @
                   ''  - what files are in Documents'' @ [NL] @
                   ''  - show content of file.txt'' @ [NL] @
                   ''  - read config.ini'' @ [NL] @
                   ''  - delete file temp.txt'' @ [NL] @
                   ''  - remove directory OldStuff'' @ [NL] @
                   ''  - move file report.pdf to Documents'' @ [NL] @
                   ''  - rename file old.txt to new.txt'' @ [NL] @
                   ''  - copy file important.docx to Backup'' @ [NL] @
                   ''  - change to directory Projects'' @ [NL] @
                   ''  - go to Documents'' @ [NL] @
                   ''  - show running processes'' @ [NL] @
                   ''  - display system usage'' @ [NL] @
                   ''  - show disk space'' @ [NL] @
                   ''  - where is my current location'' @ [NL] @
                   ''  - show command history'' @ [NL] @
                   ''  - list available commands'' @ [NL] @
                   ''  - help with creating files'' @ [NL] @
                   ''  - clear the screen'' @ [NL] @
                   ''  - exit terminal''"
    by code_simp
  ultimately show ?thesis by (simp only:)
qed

theorem help_keyword_bypasses_table_witness:
  "nlp_execute demo_os (execute_command demo_os AITerminal) command_patterns [''HeLp''] demo_terminal
     = (Inr (''Natural Language Command Examples:'' @ [NL] @
                   ''  - create a new folder called Projects'' @ [NL] @
                   ''  - make a new directory named Backup'' @ [NL] @
                   ''  - create a new file called notes.txt'' @ [NL] @
                   ''  - show files in Downloads'' @ [NL] @
                   ''  - list contents of the current directory'' @ [NL] @
                   ''  - what files are in Documents'' @ [NL] @
                   ''  - show content of file.txt'' @ [NL] @
                   ''  - read config.ini'' @ [NL] @
                   ''  - delete file temp.txt'' @ [NL] @
                   ''  - remove directory OldStuff'' @ [NL] @
                   ''  - move file report.pdf to Documents'' @ [NL] @
                   ''  - rename file old.txt to new.txt'' @ [NL] @
                   ''  - copy file important.docx to Backup'' @ [NL] @
                   ''  - change to directory Projects'' @ [NL] @
                   ''  - go to Documents'' @ [NL] @
                   ''  - show running processes'' @ [NL] @
                   ''  - display system usage'' @ [NL] @
                   ''  - show disk space'' @ [NL] @
                   ''  - where is my current location'' @ [NL] @
                   ''  - show command history'' @ [NL] @
                   ''  - list available commands'' @ [NL] @
                   ''  - help with creating files'' @ [NL] @
                   ''  - clear the screen'' @ [NL] @
                   ''  - exit terminal''), demo_terminal)
   \<and> nlp_execute demo_os (execute_command demo_os AITerminal) [] [''EXAMPLES''] demo_terminal
     = (Inr (''Natural Language Command Examples:'' @ [NL] @
                   ''  - create a new folder called Projects'' @ [NL] @
                   ''  - make a new directory named Backup'' @ [NL] @
                   ''  - create a new file called notes.txt'' @ [NL] @
                   ''  - show files in Downloads'' @ [NL] @
                   ''  - list contents of the current directory'' @ [NL] @
                   ''  - what files are in Documents'' @ [NL] @
                   ''  - show content of file.txt'' @ [NL] @
                   ''  - read config.ini'' @ [NL] @
                   ''  - delete file temp.txt'' @ [NL] @
                   ''  - remove directory OldStuff'' @ [NL] @
                   ''  - move file report.pdf to Documents'' @ [NL] @
                   ''  - rename file old.txt to new.txt'' @ [NL] @
                   ''  - copy file important.docx to Backup'' @ [NL] @
                   ''  - change to directory Projects'' @ [NL] @
                   ''  - go to Documents'' @ [NL] @
                   ''  - show running processes'' @ [NL] @
                   ''  - display system usage'' @ [NL] @
                   ''  - show disk space'' @ [NL] @
                   ''  - where is my current location'' @ [NL] @
                   ''  - show command history'' @ [NL] @
                   ''  - list available commands'' @ [NL] @
                   ''  - help with creating files'' @ [NL] @
                   ''  - clear the screen'' @ [NL] @
                   ''  - exit terminal''), demo_terminal)"
proof -
  have a: "str_lower (str_join '' '' [''HeLp'']) \<in> set [''help'', ''examples'']" by code_simp
  have b: "str_lower (str_join '' '' [''EXAMPLES'']) \<in> set [''help'', ''examples'']" by code_simp
  show ?thesis
    using help_keyword_bypasses_table[OF a] help_keyword_bypasses_table[OF b] by (intro conjI)
qed

section \<open>The dispatcher and the history\<close>

lemma execute_command_blank:
  "str_strip input_line = [] \<Longrightarrow> execute_command os regs input_line t = (Inr [], t)"
  by (simp add: execute_command.simps)

lemma execute_command_dispatch:
  assumes "str_strip input_line \<noteq> []" and "parse_command input_line = (cmd_name, args)"
    and "commands regs cmd_name = Some c"
  shows "execute_command os regs input_line t
           = command_execute os (execute_command os regs) regs c args
               (t\<lparr>command_history := command_history t @ [input_line]\<rparr>)"
  using assms by (subst execute_command.simps) (simp add: Let_def)

lemma execute_command_unknown:
  assumes "str_strip input_line \<noteq> []" and "parse_command input_line = (cmd_name, args)"
    and "commands regs cmd_name = None"
  shows "execute_command os regs input_line t
           = (Inr (cmd_name @ '': command not found''),
              t\<lparr>command_history := command_history t @ [input_line]\<rparr>)"
  using assms by (subst execute_command.simps) (simp add: Let_def)

lemma str_strip_Nil_iff: "str_strip s = [] \<longleftrightarrow> (\<forall>c \<in> set s. isspace c)"
proof
  assume "str_strip s = []"
  then have rest: "\<forall>x \<in> set (dropWhile isspace s). isspace x"
    by (simp add: str_strip_def)
  show "\<forall>c \<in> set s. isspace c"
  proof (rule ccontr)
    assume "\<not> (\<forall>c \<in> set s. isspace c)"
    then have ne: "dropWhile isspace s \<noteq> []"
      by (simp add: dropWhile_eq_Nil_conv)
    then have "\<not> isspace (hd (dropWhile isspace s))"
      by (rule hd_dropWhile)
    moreover have "hd (dropWhile isspace s) \<in> set (dropWhile isspace s)"
      using ne by (rule hd_in_set)
    ultimately show False using rest by blast
  qed
next
  assume "\<forall>c \<in> set s. isspace c"
  then have e: "dropWhile isspace s = []"
    by (simp add: dropWhile_eq_Nil_conv)
  show "str_strip s = []"
    by (simp only: str_strip_def e rev.simps dropWhile.simps)
qed

lemma str_split_Nil_iff: "str_split s = [] \<longleftrightarrow> str_strip s = []"
proof
  assume "str_strip s = []"
  then show "str_split s = []"
    by (simp add: str_strip_Nil_iff str_split_def split_from_allspace)
next
  have "split_from cur s = [] \<Longrightarrow> cur = [] \<and> (\<forall>c \<in> set s. isspace c)" for cur
    by (induction s arbitrary: cur) (auto split: if_splits)
  then show "str_split s = [] \<Longrightarrow> str_strip s = []"
    by (simp add: str_strip_Nil_iff str_split_def)
qed

text \<open>Commands other than \<open>nlp\<close> do not touch the history.\<close>

lemma command_execute_history:
  "c \<noteq> NLPCommand \<Longrightarrow>
     command_history (snd (command_execute os exec regs c args t)) = command_history t"
  by (cases c)
     (simp_all add: command_execute_def autocomplete_execute_def Let_def
        split: prod.splits list.splits)

lemma execute_command_history_plain:
  assumes "fst (parse_command l) \<noteq> ''nlp''"
  shows "command_history (snd (execute_command os regs l t))
           = (if str_strip l = [] then command_history t else command_history t @ [l])"
proof (cases "str_strip l = []")
  case True
  then show ?thesis by (simp add: execute_command_blank)
next
  case False
  obtain n args where p: "parse_command l = (n, args)" by (cases "parse_command l")
  show ?thesis
  proof (cases "commands regs n")
    case None
    then show ?thesis using False p by (simp add: execute_command_unknown)
  next
    case (Some c)
    then have "c \<noteq> NLPCommand"
      using commands_name[OF Some] assms p by auto
    then show ?thesis
      using False p Some by (simp add: execute_command_dispatch command_execute_history)
  qed
qed

text \<open>A handler calls the terminal back at most once, on a line that is not an \<open>nlp\<close> line;
  whatever relation \<open>P\<close> such a call keeps between the histories before and after, and
  that holds of an unchanged history, the handler keeps.\<close>

lemma call_handler_history:
  assumes "\<And>l s. fst (parse_command l) \<noteq> ''nlp'' \<Longrightarrow> str_strip l \<noteq> [] \<Longrightarrow>
             P (command_history s) (command_history (snd (exec l s)))"
    and "\<And>h. P h h"
  shows "P (command_history t) (command_history (snd (call_handler os exec h gs t)))"
  using assms
  by (cases h)
     (simp_all add: call_handler_def call0_def call1_def call2_def type_error_def
        create_directory_def create_file_def list_directory_def show_file_content_def
        remove_item_def change_directory_def list_processes_def show_resource_usage_def
        show_disk_usage_def show_current_directory_def show_history_def show_help_def
        show_command_help_def exit_terminal_def clear_screen_def Let_def
        move_item_def rename_item_def copy_item_def
        parse_command_split str_split_def str_strip_Nil_iff isspace_def
        split: list.splits option.splits prod.splits)

lemma match_patterns_history:
  assumes "\<And>l s. fst (parse_command l) \<noteq> ''nlp'' \<Longrightarrow> str_strip l \<noteq> [] \<Longrightarrow>
             P (command_history s) (command_history (snd (exec l s)))"
    and "\<And>h. P h h"
  shows "P (command_history t) (command_history (snd (match_patterns os exec ps q t)))"
proof (induction ps)
  case Nil
  then show ?case by (simp add: assms(2))
next
  case (Cons a ps)
  obtain p h where a: "a = (p, h)" by (cases a)
  show ?case
    using Cons.IH call_handler_history[where exec = exec and P = P, OF assms]
    by (simp add: a split: option.splits)
qed

lemma nlp_execute_history:
  assumes "\<And>l s. fst (parse_command l) \<noteq> ''nlp'' \<Longrightarrow> str_strip l \<noteq> [] \<Longrightarrow>
             P (command_history s) (command_history (snd (exec l s)))"
    and "\<And>h. P h h"
  shows "P (command_history t) (command_history (snd (nlp_execute os exec ps args t)))"
  using match_patterns_history[where exec = exec and P = P, OF assms]
  by (simp add: nlp_execute_def Let_def assms(2))

lemma execute_command_history_cases:
  assumes "str_strip input_line \<noteq> []"
  shows "command_history (snd (execute_command os regs input_line t)) = command_history t @ [input_line]
       \<or> (fst (parse_command input_line) = ''nlp'' \<and>
          (\<exists>l. command_history (snd (execute_command os regs input_line t))
                 = command_history t @ [input_line, l]))"
proof (cases "fst (parse_command input_line) = ''nlp''")
  case False
  then show ?thesis
    using assms by (simp add: execute_command_history_plain)
next
  case True
  obtain n args where p: "parse_command input_line = (n, args)" by (cases "parse_command input_line")
  let ?t = "t\<lparr>command_history := command_history t @ [input_line]\<rparr>"
  let ?P = "\<lambda>h h'. h' = h \<or> (\<exists>l. h' = h @ [l])"
  show ?thesis
  proof (cases "commands regs n")
    case None
    then show ?thesis using assms p by (simp add: execute_command_unknown)
  next
    case (Some c)
    show ?thesis
    proof (cases "c = NLPCommand")
      case False
      then show ?thesis
        using assms p Some by (simp add: execute_command_dispatch command_execute_history)
    next
      case nlp: True
      have "?P (command_history ?t)
              (command_history (snd (nlp_execute os (execute_command os regs) command_patterns args ?t)))"
        by (rule nlp_execute_history) (simp_all add: execute_command_history_plain)
      then show ?thesis
        using assms p Some nlp True
        by (auto simp: execute_command_dispatch command_execute_def)
    qed
  qed
qed

text \<open>
  \<^bold>\<open>C10.\<close>  A whitespace-only input line returns the empty string and leaves the state,
  the history included, as it is.  Any other line is appended to the history before
  dispatch: an unregistered name yields \<open><name>: command not found\<close> with exactly that
  entry added, and a registered command is executed on the state that already holds the
  new entry, whatever it then returns or raises.  When the call returns, the history is
  the old one with the raw line appended, except that an \<open>nlp\<close> line may be followed by
  the one line its handler handed back to \<open>execute_command\<close>, appended by that nested
  call.  In every case the old history is a prefix of the new one.
\<close>

theorem execute_command_appends_history:
  "(str_strip input_line = [] \<longrightarrow> execute_command os regs input_line t = (Inr [], t))
   \<and> (str_strip input_line \<noteq> [] \<longrightarrow>
        (case commands regs (fst (parse_command input_line)) of
           None \<Rightarrow>
             execute_command os regs input_line t
               = (Inr (fst (parse_command input_line) @ '': command not found''),
                  t\<lparr>command_history := command_history t @ [input_line]\<rparr>)
         | Some c \<Rightarrow>
             execute_command os regs input_line t
               = command_execute os (execute_command os regs) regs c (snd (parse_command input_line))
                   (t\<lparr>command_history := command_history t @ [input_line]\<rparr>))
        \<and> (command_history (snd (execute_command os regs input_line t))
               = command_history t @ [input_line]
           \<or> fst (parse_command input_line) = ''nlp'' \<and>
             (\<exists>l. command_history (snd (execute_command os regs input_line t))
                    = command_history t @ [input_line, l])))
   \<and> prefix (command_history t) (command_history (snd (execute_command os regs input_line t)))"
proof (cases "str_strip input_line = []")
  case True
  then show ?thesis by (simp add: execute_command_blank)
next
  case False
  obtain n args where p: "parse_command input_line = (n, args)"
    by (cases "parse_command input_line")
  have dispatch: "case commands regs (fst (parse_command input_line)) of
           None \<Rightarrow>
             execute_command os regs input_line t
               = (Inr (fst (parse_command input_line) @ '': command not found''),
                  t\<lparr>command_history := command_history t @ [input_line]\<rparr>)
         | Some c \<Rightarrow>
             execute_command os regs input_line t
               = command_execute os (execute_command os regs) regs c (snd (parse_command input_line))
                   (t\<lparr>command_history := command_history t @ [input_line]\<rparr>)"
    using False p
    by (simp add: execute_command_unknown execute_command_dispatch split: option.splits)
  have hist: "command_history (snd (execute_command os regs input_line t))
               = command_history t @ [input_line]
           \<or> fst (parse_command input_line) = ''nlp'' \<and>
             (\<exists>l. command_history (snd (execute_command os regs input_line t))
                    = command_history t @ [input_line, l])"
    using False by (rule execute_command_history_cases)
  then have "prefix (command_history t) (command_history (snd (execute_command os regs input_line t)))"
    by (auto simp: prefix_def)
  with False dispatch hist show ?thesis by blast
qed

theorem execute_command_appends_history_witness:
  "execute_command demo_os Terminal ''frobnicate --now'' demo_terminal
     = (Inr ''frobnicate: command not found'',
        demo_terminal\<lparr>command_history := [''frobnicate --now'']\<rparr>)
   \<and> execute_command demo_os AITerminal ''rm Documents'' demo_terminal
     = command_execute demo_os (execute_command demo_os AITerminal) AITerminal RmCommand [''Documents'']
         (demo_terminal\<lparr>command_history := [''rm Documents'']\<rparr>)
   \<and> command_execute demo_os (execute_command demo_os AITerminal) AITerminal RmCommand [''Documents'']
         (demo_terminal\<lparr>command_history := [''rm Documents'']\<rparr>)
     = (Inr (''rm: cannot remove '' @ [SQ] @ ''Documents'' @ [SQ] @ '': Is a directory''),
        demo_terminal\<lparr>command_history := [''rm Documents'']\<rparr>)"
proof -
  have a: "str_strip ''frobnicate --now'' \<noteq> []" by code_simp
  have b: "parse_command ''frobnicate --now'' = (''frobnicate'', [''--now''])" by code_simp
  have c: "commands Terminal ''frobnicate'' = None" by code_simp
  have 1: "execute_command demo_os Terminal ''frobnicate --now'' demo_terminal
     = (Inr ''frobnicate: command not found'',
        demo_terminal\<lparr>command_history := [''frobnicate --now'']\<rparr>)"
    using execute_command_appends_history[of "''frobnicate --now''" demo_os Terminal demo_terminal] a
    by (simp add: b c demo_terminal_def)
  have a': "str_strip ''rm Documents'' \<noteq> []" by code_simp
  have b': "parse_command ''rm Documents'' = (''rm'', [''Documents''])" by code_simp
  have c': "commands AITerminal ''rm'' = Some RmCommand" by code_simp
  have 2: "execute_command demo_os AITerminal ''rm Documents'' demo_terminal
     = command_execute demo_os (execute_command demo_os AITerminal) AITerminal RmCommand [''Documents'']
         (demo_terminal\<lparr>command_history := [''rm Documents'']\<rparr>)"
    using execute_command_appends_history[of "''rm Documents''" demo_os AITerminal demo_terminal] a'
    by (simp add: b' c' demo_terminal_def)
  have 3: "command_execute demo_os (execute_command demo_os AITerminal) AITerminal RmCommand [''Documents'']
         (demo_terminal\<lparr>command_history := [''rm Documents'']\<rparr>)
     = (Inr (''rm: cannot remove '' @ [SQ] @ ''Documents'' @ [SQ] @ '': Is a directory''),
        demo_terminal\<lparr>command_history := [''rm Documents'']\<rparr>)"
    by code_simp
  from 1 2 3 show ?thesis by (intro conjI)
qed

lemma parse_command_nlp_blank:
  assumes "str_strip rest = []"
  shows "parse_command (''nlp'' @ rest) = (''nlp'', [])"
proof -
  have "\<forall>c \<in> set rest. isspace c"
    using assms by (simp add: str_strip_Nil_iff)
  then have "split_from ''nlp'' rest = [''nlp'']"
    by (simp add: split_from_allspace)
  then have "str_split (''nlp'' @ rest) = [''nlp'']"
    by (simp add: str_split_def isspace_def)
  then show ?thesis
    by (simp add: parse_command_split)
qed

text \<open>
  \<^bold>\<open>C5.\<close>  The utterance of a resolution call is the text \<open>" ".join(args)\<close>.  The
  guidance message is returned, with the state unchanged, when that text is empty; this
  is the case for every terminal line that holds only whitespace after \<open>nlp\<close>, since
  tokenization leaves no argument.  The result is ordinary text (\<open>Inr\<close>).  The test is
  \<open>not query\<close>, so a non-empty utterance of whitespace only, which only a direct call of
  \<open>execute\<close> can pass, is not caught by it: it goes through the pattern table and gets
  the no-match message.
\<close>

theorem empty_utterance_guidance:
  "(str_join '' '' args = [] \<longrightarrow>
      nlp_execute os exec patterns args t
        = (Inr (''Please enter a natural language command. Type '' @ [SQ] @ ''nlp help'' @ [SQ]
                @ '' for examples.''), t))
   \<and> (commands regs ''nlp'' = Some NLPCommand \<longrightarrow> str_strip rest = [] \<longrightarrow>
      execute_command os regs (''nlp'' @ rest) t
        = (Inr (''Please enter a natural language command. Type '' @ [SQ] @ ''nlp help'' @ [SQ]
                @ '' for examples.''),
           t\<lparr>command_history := command_history t @ [''nlp'' @ rest]\<rparr>))"
proof (intro conjI impI)
  assume "str_join '' '' args = []"
  then show "nlp_execute os exec patterns args t
        = (Inr (''Please enter a natural language command. Type '' @ [SQ] @ ''nlp help'' @ [SQ]
                @ '' for examples.''), t)"
    by (simp add: nlp_execute_def need_input_def)
next
  assume reg: "commands regs ''nlp'' = Some NLPCommand" and blank: "str_strip rest = []"
  have p: "parse_command (''nlp'' @ rest) = (''nlp'', [])"
    using blank by (rule parse_command_nlp_blank)
  have "str_split (''nlp'' @ rest) \<noteq> []"
    using p by (auto simp: parse_command_split split: list.splits)
  then have ne: "str_strip (''nlp'' @ rest) \<noteq> []"
    by (simp add: str_split_Nil_iff)
  show "execute_command os regs (''nlp'' @ rest) t
        = (Inr (''Please enter a natural language command. Type '' @ [SQ] @ ''nlp help'' @ [SQ]
                @ '' for examples.''),
           t\<lparr>command_history := command_history t @ [''nlp'' @ rest]\<rparr>)"
    by (simp only: execute_command_dispatch[OF ne p reg])
       (simp add: command_execute_def nlp_execute_def need_input_def)
qed

theorem empty_utterance_guidance_witness:
  "nlp_execute demo_os (execute_command demo_os AITerminal) command_patterns [] demo_terminal
     = (Inr (''Please enter a natural language command. Type '' @ [SQ] @ ''nlp help'' @ [SQ]
             @ '' for examples.''), demo_terminal)
   \<and> execute_command demo_os AITerminal ''nlp   '' demo_terminal
     = (Inr (''Please enter a natural language command. Type '' @ [SQ] @ ''nlp help'' @ [SQ]
             @ '' for examples.''),
        demo_terminal\<lparr>command_history := [''nlp   '']\<rparr>)"
proof -
  have a: "str_join '' '' [] = []" by simp
  have b: "commands AITerminal ''nlp'' = Some NLPCommand" by code_simp
  have c: "str_strip ''   '' = []" by code_simp
  show ?thesis
    using empty_utterance_guidance[of "[]" demo_os "execute_command demo_os AITerminal"
        command_patterns demo_terminal AITerminal "''   ''"] a b c
    by (simp add: demo_terminal_def)
qed

text \<open>The utterance of two spaces is whitespace only and does not get the guidance
  message.\<close>

theorem whitespace_utterance_counterexample:
  "str_strip (str_join '' '' [''  '']) = []
   \<and> nlp_execute demo_os (execute_command demo_os AITerminal) command_patterns [''  ''] demo_terminal
     = (Inr (''I don'' @ [SQ] @ ''t understand '' @ [SQ] @ ''  '' @ [SQ] @ ''. Type '' @ [SQ]
             @ ''nlp help'' @ [SQ] @ '' for examples of commands I understand.''), demo_terminal)
   \<and> fst (nlp_execute demo_os (execute_command demo_os AITerminal) command_patterns [''  ''] demo_terminal)
     \<noteq> Inr need_input"
  by code_simp

section \<open>The adapters\<close>

lemma nlp_execute_resolved:
  assumes "str_join '' '' args = query" and "query \<noteq> []"
    and "str_lower query \<notin> set [''help'', ''examples'']"
    and "\<forall>(p, h) \<in> set (take i patterns). re_search p query = None"
    and "i < length patterns"
    and "re_search (fst (patterns ! i)) query = Some groups"
  shows "nlp_execute os exec patterns args t = call_handler os exec (snd (patterns ! i)) groups t"
proof -
  obtain p h where ph: "patterns ! i = (p, h)" by (cases "patterns ! i")
  have "patterns = take i patterns @ (p, h) # drop (Suc i) patterns"
    using id_take_nth_drop[OF assms(5)] ph by simp
  then have split: "match_patterns os exec patterns query t
               = match_patterns os exec (take i patterns @ (p, h) # drop (Suc i) patterns) query t"
    by (rule arg_cong)
  have "nlp_execute os exec patterns args t = match_patterns os exec patterns query t"
    using assms(1-3) by (rule nlp_execute_scan)
  also note split
  also have "match_patterns os exec (take i patterns @ (p, h) # drop (Suc i) patterns) query t
               = match_patterns os exec ((p, h) # drop (Suc i) patterns) query t"
    using assms(4) by (rule match_patterns_skip)
  also have "\<dots> = call_handler os exec h groups t"
    using assms(6) ph by simp
  finally show ?thesis
    by (simp add: ph)
qed

text \<open>
  \<^bold>\<open>C9.\<close>  The utterance \<open>show files in Downloads\<close> is resolved by the listing pattern
  (the fifth of the table), whose single group captures \<open>Downloads\<close>; the handler hands
  the line \<open>ls Downloads\<close> to the terminal, which tokenizes it into the command \<open>ls\<close>
  and the one argument \<open>Downloads\<close> and executes the registered listing command on it.
  For \<open>show files in\<close> the group captures the empty string, and the handler lists
  \<open>.\<close> instead.
\<close>

theorem listing_slot:
  "nlp_execute os exec command_patterns [''show'', ''files'', ''in'', ''Downloads''] t
     = exec ''ls Downloads'' t
   \<and> parse_command ''ls Downloads'' = (''ls'', [''Downloads''])
   \<and> re_search (fst (command_patterns ! 4)) ''show files in Downloads'' = Some [''Downloads'']
   \<and> nlp_execute os exec command_patterns [''show'', ''files'', ''in''] t = exec ''ls .'' t
   \<and> parse_command ''ls .'' = (''ls'', [''.''])
   \<and> re_search (fst (command_patterns ! 4)) ''show files in'' = Some [[]]
   \<and> call_handler os exec H_list_directory [[]] t = exec ''ls .'' t
   \<and> execute_command os AITerminal ''nlp show files in Downloads'' t
     = command_execute os (execute_command os AITerminal) AITerminal LsCommand [''Downloads'']
         (t\<lparr>command_history :=
               command_history t @ [''nlp show files in Downloads'', ''ls Downloads'']\<rparr>)"
proof -
  let ?q = "''show files in Downloads''"
  have a: "str_join '' '' [''show'', ''files'', ''in'', ''Downloads''] = ?q" by simp
  have b: "?q \<noteq> []" by simp
  have c: "str_lower ?q \<notin> set [''help'', ''examples'']" by code_simp
  have d: "\<forall>(p, h) \<in> set (take 4 command_patterns). re_search p ?q = None" by code_simp
  have e: "4 < length command_patterns" by code_simp
  have f: "re_search (fst (command_patterns ! 4)) ?q = Some [''Downloads'']" by code_simp
  have g: "snd (command_patterns ! 4) = H_list_directory" by code_simp
  have h: "shlex_quote (str_strip ''Downloads'') = ''Downloads''" by code_simp
  have 1: "nlp_execute os exec command_patterns [''show'', ''files'', ''in'', ''Downloads''] t
             = exec ''ls Downloads'' t" for exec :: "'a callback" and t
    by (simp only: nlp_execute_resolved[OF a b c d e f] g)
       (simp add: call_handler_def call1_def list_directory_def h)
  have 2: "parse_command ''ls Downloads'' = (''ls'', [''Downloads''])" by code_simp
  let ?q' = "''show files in''"
  have a': "str_join '' '' [''show'', ''files'', ''in''] = ?q'" by simp
  have b': "?q' \<noteq> []" by simp
  have c': "str_lower ?q' \<notin> set [''help'', ''examples'']" by code_simp
  have d': "\<forall>(p, h) \<in> set (take 4 command_patterns). re_search p ?q' = None" by code_simp
  have f': "re_search (fst (command_patterns ! 4)) ?q' = Some [[]]" by code_simp
  have h': "shlex_quote ''.'' = ''.''" by code_simp
  have 7: "call_handler os exec H_list_directory [[]] t = exec ''ls .'' t"
    by (simp add: call_handler_def call1_def list_directory_def h')
  have 4: "nlp_execute os exec command_patterns [''show'', ''files'', ''in''] t = exec ''ls .'' t"
    by (simp only: nlp_execute_resolved[OF a' b' c' d' e f'] g 7)
  have 5: "parse_command ''ls .'' = (''ls'', [''.''])" by code_simp
  have s1: "str_strip ''nlp show files in Downloads'' \<noteq> []" by code_simp
  have p1: "parse_command ''nlp show files in Downloads''
              = (''nlp'', [''show'', ''files'', ''in'', ''Downloads''])" by code_simp
  have r1: "commands AITerminal ''nlp'' = Some NLPCommand" by code_simp
  have s2: "str_strip ''ls Downloads'' \<noteq> []" by code_simp
  have r2: "commands AITerminal ''ls'' = Some LsCommand" by code_simp
  have 8: "execute_command os AITerminal ''nlp show files in Downloads'' t
     = command_execute os (execute_command os AITerminal) AITerminal LsCommand [''Downloads'']
         (t\<lparr>command_history :=
               command_history t @ [''nlp show files in Downloads'', ''ls Downloads'']\<rparr>)"
    by (simp only: execute_command_dispatch[OF s1 p1 r1])
       (simp add: command_execute_def 1 execute_command_dispatch[OF s2 2 r2])
  from 1 2 f 4 5 f' 7 8 show ?thesis by (intro conjI)
qed

theorem listing_slot_witness:
  "execute_command demo_os AITerminal ''nlp show files in Downloads'' demo_terminal
     = (Inr ''ls Downloads'',
        demo_terminal\<lparr>command_history := [''nlp show files in Downloads'', ''ls Downloads'']\<rparr>)"
proof -
  have "command_execute demo_os (execute_command demo_os AITerminal) AITerminal LsCommand [''Downloads'']
         (demo_terminal\<lparr>command_history :=
               command_history demo_terminal @ [''nlp show files in Downloads'', ''ls Downloads'']\<rparr>)
     = (Inr ''ls Downloads'',
        demo_terminal\<lparr>command_history := [''nlp show files in Downloads'', ''ls Downloads'']\<rparr>)"
    by code_simp
  then show ?thesis
    using listing_slot[of demo_os "execute_command demo_os AITerminal" demo_terminal] by simp
qed

text \<open>
  \<^bold>\<open>C7.\<close>  Whatever the library calls do, each direct adapter (move, rename, copy)
  returns text, never an exception, and changes nothing of the terminal's state but the
  world.  When the underlying call (\<open>shutil.move\<close>, \<open>os.rename\<close>, \<open>shutil.copytree\<close> for
  a directory source, \<open>shutil.copy2\<close> otherwise) raises \<open>e\<close>, the text is
  \<open>Error moving\<close> (\<open>renaming\<close>, \<open>copying\<close>) followed by the two slot values, as the
  adapter trimmed them, and \<open>str(e)\<close>.
\<close>

theorem direct_adapters_catch:
  "(\<exists>text w'. call_handler os exec H_move_item [S, D] t = (Inr text, t\<lparr>world := w'\<rparr>))
   \<and> (\<exists>text w'. call_handler os exec H_rename_item [S, D] t = (Inr text, t\<lparr>world := w'\<rparr>))
   \<and> (\<exists>text w'. call_handler os exec H_copy_item [S, D] t = (Inr text, t\<lparr>world := w'\<rparr>))
   \<and> (\<forall>e w'.
        shutil_move os (str_strip S)
          (if os_path_isdir os (str_strip D) (world t)
           then path_join (str_strip D) (basename (str_strip S)) else str_strip D) (world t)
          = (Some e, w') \<longrightarrow>
        move_item os S D t
          = (Inr (''Error moving '' @ str_strip S @ '' to '' @ str_strip D @ '': '' @ exn_str e),
             t\<lparr>world := w'\<rparr>))
   \<and> (\<forall>e w'.
        os_rename os (str_strip S) (str_strip D) (world t) = (Some e, w') \<longrightarrow>
        rename_item os S D t
          = (Inr (''Error renaming '' @ str_strip S @ '' to '' @ str_strip D @ '': '' @ exn_str e),
             t\<lparr>world := w'\<rparr>))
   \<and> (\<forall>e w'.
        os_path_isdir os (str_strip S) (world t) \<longrightarrow>
        shutil_copytree os (str_strip S)
          (if os_path_exists os (str_strip D) (world t)
           then path_join (str_strip D) (basename (str_strip S)) else str_strip D) (world t)
          = (Some e, w') \<longrightarrow>
        copy_item os S D t
          = (Inr (''Error copying '' @ str_strip S @ '' to '' @ str_strip D @ '': '' @ exn_str e),
             t\<lparr>world := w'\<rparr>))
   \<and> (\<forall>e w'.
        \<not> os_path_isdir os (str_strip S) (world t) \<longrightarrow>
        shutil_copy2 os (str_strip S)
          (if os_path_isdir os (str_strip D) (world t)
           then path_join (str_strip D) (basename (str_strip S)) else str_strip D) (world t)
          = (Some e, w') \<longrightarrow>
        copy_item os S D t
          = (Inr (''Error copying '' @ str_strip S @ '' to '' @ str_strip D @ '': '' @ exn_str e),
             t\<lparr>world := w'\<rparr>))"
proof (intro conjI allI impI)
  show "\<exists>text w'. call_handler os exec H_move_item [S, D] t = (Inr text, t\<lparr>world := w'\<rparr>)"
    unfolding call_handler_def call2_def move_item_def Let_def
    by (auto split: prod.splits option.splits)
  show "\<exists>text w'. call_handler os exec H_rename_item [S, D] t = (Inr text, t\<lparr>world := w'\<rparr>)"
    unfolding call_handler_def call2_def rename_item_def Let_def
    by (auto split: prod.splits option.splits)
  show "\<exists>text w'. call_handler os exec H_copy_item [S, D] t = (Inr text, t\<lparr>world := w'\<rparr>)"
    unfolding call_handler_def call2_def copy_item_def Let_def
    by (auto split: prod.splits option.splits)
qed (simp_all add: move_item_def rename_item_def copy_item_def Let_def)

theorem direct_adapters_catch_witness:
  "move_item demo_os ''nothing.txt '' ''Documents'' demo_terminal
     = (Inr (''Error moving nothing.txt to Documents: [Errno 2] No such file or directory: ''
             @ [SQ] @ ''nothing.txt'' @ [SQ]), demo_terminal)
   \<and> rename_item demo_os ''nothing.txt'' ''other.txt'' demo_terminal
     = (Inr (''Error renaming nothing.txt to other.txt: [Errno 2] No such file or directory: ''
             @ [SQ] @ ''nothing.txt'' @ [SQ]), demo_terminal)
   \<and> copy_item demo_os ''nothing.txt'' ''Documents'' demo_terminal
     = (Inr (''Error copying nothing.txt to Documents: [Errno 2] No such file or directory: ''
             @ [SQ] @ ''nothing.txt'' @ [SQ]), demo_terminal)"
proof -
  let ?exec = "execute_command demo_os AITerminal"
  let ?w = "world demo_terminal"
  note T1 = direct_adapters_catch[of demo_os ?exec "''nothing.txt ''" "''Documents''" demo_terminal]
  note T2 = direct_adapters_catch[of demo_os ?exec "''nothing.txt''" "''other.txt''" demo_terminal]
  note T3 = direct_adapters_catch[of demo_os ?exec "''nothing.txt''" "''Documents''" demo_terminal]
  have m: "shutil_move demo_os (str_strip ''nothing.txt '')
             (if os_path_isdir demo_os (str_strip ''Documents'') ?w
              then path_join (str_strip ''Documents'') (basename (str_strip ''nothing.txt ''))
              else str_strip ''Documents'') ?w
           = (Some (missing ''nothing.txt''), ?w)"
    by code_simp
  have r: "os_rename demo_os (str_strip ''nothing.txt'') (str_strip ''other.txt'') ?w
           = (Some (missing ''nothing.txt''), ?w)"
    by code_simp
  have c1: "\<not> os_path_isdir demo_os (str_strip ''nothing.txt'') ?w" by code_simp
  have c2: "shutil_copy2 demo_os (str_strip ''nothing.txt'')
             (if os_path_isdir demo_os (str_strip ''Documents'') ?w
              then path_join (str_strip ''Documents'') (basename (str_strip ''nothing.txt''))
              else str_strip ''Documents'') ?w
           = (Some (missing ''nothing.txt''), ?w)"
    by code_simp
  have 1: "move_item demo_os ''nothing.txt '' ''Documents'' demo_terminal
     = (Inr (''Error moving '' @ str_strip ''nothing.txt '' @ '' to '' @ str_strip ''Documents''
             @ '': '' @ exn_str (missing ''nothing.txt'')), demo_terminal\<lparr>world := ?w\<rparr>)"
    using T1 m by blast
  have 2: "rename_item demo_os ''nothing.txt'' ''other.txt'' demo_terminal
     = (Inr (''Error renaming '' @ str_strip ''nothing.txt'' @ '' to '' @ str_strip ''other.txt''
             @ '': '' @ exn_str (missing ''nothing.txt'')), demo_terminal\<lparr>world := ?w\<rparr>)"
    using T2 r by blast
  have 3: "copy_item demo_os ''nothing.txt'' ''Documents'' demo_terminal
     = (Inr (''Error copying '' @ str_strip ''nothing.txt'' @ '' to '' @ str_strip ''Documents''
             @ '': '' @ exn_str (missing ''nothing.txt'')), demo_terminal\<lparr>world := ?w\<rparr>)"
    using T3 c1 c2 by blast
  have e1: "((Inr (''Error moving '' @ str_strip ''nothing.txt '' @ '' to '' @ str_strip ''Documents''
             @ '': '' @ exn_str (missing ''nothing.txt'')), demo_terminal\<lparr>world := ?w\<rparr>) :: demo_fs result)
     = (Inr (''Error moving nothing.txt to Documents: [Errno 2] No such file or directory: ''
             @ [SQ] @ ''nothing.txt'' @ [SQ]), demo_terminal)"
    by code_simp
  have e2: "((Inr (''Error renaming '' @ str_strip ''nothing.txt'' @ '' to '' @ str_strip ''other.txt''
             @ '': '' @ exn_str (missing ''nothing.txt'')), demo_terminal\<lparr>world := ?w\<rparr>) :: demo_fs result)
     = (Inr (''Error renaming nothing.txt to other.txt: [Errno 2] No such file or directory: ''
             @ [SQ] @ ''nothing.txt'' @ [SQ]), demo_terminal)"
    by code_simp
  have e3: "((Inr (''Error copying '' @ str_strip ''nothing.txt'' @ '' to '' @ str_strip ''Documents''
             @ '': '' @ exn_str (missing ''nothing.txt'')), demo_terminal\<lparr>world := ?w\<rparr>) :: demo_fs result)
     = (Inr (''Error copying nothing.txt to Documents: [Errno 2] No such file or directory: ''
             @ [SQ] @ ''nothing.txt'' @ [SQ]), demo_terminal)"
    by code_simp
  show ?thesis
    using 1 2 3 unfolding e1 e2 e3 by (intro conjI)
qed

text \<open>\<open>os.path.basename\<close> is what follows the last slash, and \<open>os.path.join\<close> of a
  directory name that does not end in a slash and a relative name puts one slash between
  them.\<close>

lemma takeWhile_no_slash:
  assumes "CHR ''/'' \<notin> set name"
  shows "takeWhile (\<lambda>c. c \<noteq> CHR ''/'') (rev name @ rest)
           = rev name @ takeWhile (\<lambda>c. c \<noteq> CHR ''/'') rest"
proof (rule takeWhile_append2)
  fix x assume "x \<in> set (rev name)"
  with assms show "x \<noteq> CHR ''/''" by auto
qed

lemma basename_after_slash:
  assumes "CHR ''/'' \<notin> set name"
  shows "basename (dir @ ''/'' @ name) = name"
proof -
  have "takeWhile (\<lambda>c. c \<noteq> CHR ''/'') (rev name @ CHR ''/'' # rev dir) = rev name"
    by (simp only: takeWhile_no_slash[OF assms]) simp
  then show ?thesis by (simp add: basename_def)
qed

lemma basename_plain:
  assumes "CHR ''/'' \<notin> set p"
  shows "basename p = p"
proof -
  have e: "takeWhile (\<lambda>c. c \<noteq> CHR ''/'') (rev p) = rev p"
    using assms by (auto simp: takeWhile_eq_all_conv)
  show ?thesis unfolding basename_def e by simp
qed

lemma path_join_plain:
  "a \<noteq> [] \<Longrightarrow> last a \<noteq> CHR ''/'' \<Longrightarrow> CHR ''/'' \<notin> set b \<Longrightarrow> path_join a b = a @ ''/'' @ b"
  by (cases b) (auto simp: path_join_def)

text \<open>
  \<^bold>\<open>C3.\<close>  The move adapter trims its two slots; \<open>S\<close> and \<open>D\<close> below are the slots as
  captured, and the claim's source and destination are their trimmed values.  If the
  destination names an existing directory, the world after the adapter is the world
  after \<open>shutil.move\<close> of the source to the destination joined with the source's base
  name; otherwise it is the world after \<open>shutil.move\<close> of the source to the destination
  itself.  \<open>shutil.move\<close> is arbitrary here, so the path it is given is the one stated.
  The joined path is written out: for a source \<open>dir/name\<close> (\<open>name\<close> without a slash) and
  a destination directory \<open>D\<close> that does not end in a slash it is \<open>D/name\<close>, the
  directory part of the source dropped; for a source without a slash it is \<open>D/S\<close>.
  The utterance \<open>move report.pdf to Documents\<close> resolves to the adapter with the slots
  \<open>report.pdf\<close> and \<open>Documents\<close>, whose joined path is \<open>Documents/report.pdf\<close>, and so
  is the joined path for the source \<open>sub/report.pdf\<close> (\<open>os.path\<close> in its POSIX flavour).
\<close>

theorem move_destination_path:
  "(os_path_isdir os (str_strip D) (world t) \<longrightarrow>
      snd (move_item os S D t)
        = t\<lparr>world := snd (shutil_move os (str_strip S)
                             (path_join (str_strip D) (basename (str_strip S))) (world t))\<rparr>)
   \<and> (\<not> os_path_isdir os (str_strip D) (world t) \<longrightarrow>
      snd (move_item os S D t)
        = t\<lparr>world := snd (shutil_move os (str_strip S) (str_strip D) (world t))\<rparr>)
   \<and> (os_path_isdir os (str_strip D) (world t) \<longrightarrow>
      str_strip D \<noteq> [] \<longrightarrow> last (str_strip D) \<noteq> CHR ''/'' \<longrightarrow>
      str_strip S = dir @ ''/'' @ name \<longrightarrow> CHR ''/'' \<notin> set name \<longrightarrow>
      snd (move_item os S D t)
        = t\<lparr>world := snd (shutil_move os (dir @ ''/'' @ name) (str_strip D @ ''/'' @ name)
                             (world t))\<rparr>)
   \<and> (os_path_isdir os (str_strip D) (world t) \<longrightarrow>
      str_strip D \<noteq> [] \<longrightarrow> last (str_strip D) \<noteq> CHR ''/'' \<longrightarrow>
      CHR ''/'' \<notin> set (str_strip S) \<longrightarrow>
      snd (move_item os S D t)
        = t\<lparr>world := snd (shutil_move os (str_strip S) (str_strip D @ ''/'' @ str_strip S)
                             (world t))\<rparr>)
   \<and> nlp_execute os exec command_patterns [''move'', ''report.pdf'', ''to'', ''Documents''] t
       = move_item os ''report.pdf'' ''Documents'' t
   \<and> nlp_execute os exec command_patterns [''move'', ''sub/report.pdf'', ''to'', ''Documents''] t
       = move_item os ''sub/report.pdf'' ''Documents'' t
   \<and> path_join (str_strip ''Documents'') (basename (str_strip ''report.pdf'')) = ''Documents/report.pdf''
   \<and> path_join (str_strip ''Documents'') (basename (str_strip ''sub/report.pdf''))
       = ''Documents/report.pdf''
   \<and> str_strip ''Documents'' = ''Documents''"
proof -
  let ?q = "''move report.pdf to Documents''"
  have a: "str_join '' '' [''move'', ''report.pdf'', ''to'', ''Documents''] = ?q" by simp
  have b: "?q \<noteq> []" by simp
  have c: "str_lower ?q \<notin> set [''help'', ''examples'']" by code_simp
  have d: "\<forall>(p, h) \<in> set (take 9 command_patterns). re_search p ?q = None" by code_simp
  have e: "9 < length command_patterns" by code_simp
  have f: "re_search (fst (command_patterns ! 9)) ?q = Some [''report.pdf'', ''Documents'']"
    by code_simp
  have g: "snd (command_patterns ! 9) = H_move_item" by code_simp
  have 5: "nlp_execute os exec command_patterns [''move'', ''report.pdf'', ''to'', ''Documents''] t
       = move_item os ''report.pdf'' ''Documents'' t"
    by (simp only: nlp_execute_resolved[OF a b c d e f] g) (simp add: call_handler_def call2_def)
  let ?q' = "''move sub/report.pdf to Documents''"
  have a': "str_join '' '' [''move'', ''sub/report.pdf'', ''to'', ''Documents''] = ?q'" by simp
  have b': "?q' \<noteq> []" by simp
  have c': "str_lower ?q' \<notin> set [''help'', ''examples'']" by code_simp
  have d': "\<forall>(p, h) \<in> set (take 9 command_patterns). re_search p ?q' = None" by code_simp
  have f': "re_search (fst (command_patterns ! 9)) ?q' = Some [''sub/report.pdf'', ''Documents'']"
    by code_simp
  have 6: "nlp_execute os exec command_patterns [''move'', ''sub/report.pdf'', ''to'', ''Documents''] t
       = move_item os ''sub/report.pdf'' ''Documents'' t"
    by (simp only: nlp_execute_resolved[OF a' b' c' d' e f'] g) (simp add: call_handler_def call2_def)
  have 7: "path_join (str_strip ''Documents'') (basename (str_strip ''report.pdf'')) = ''Documents/report.pdf''"
    by code_simp
  have 8: "path_join (str_strip ''Documents'') (basename (str_strip ''sub/report.pdf''))
       = ''Documents/report.pdf''"
    by code_simp
  have 9: "str_strip ''Documents'' = ''Documents''" by code_simp
  have 1: "os_path_isdir os (str_strip D) (world t) \<longrightarrow>
      snd (move_item os S D t)
        = t\<lparr>world := snd (shutil_move os (str_strip S)
                             (path_join (str_strip D) (basename (str_strip S))) (world t))\<rparr>"
    by (simp add: move_item_def Let_def split: prod.splits option.splits)
  have 2: "\<not> os_path_isdir os (str_strip D) (world t) \<longrightarrow>
      snd (move_item os S D t)
        = t\<lparr>world := snd (shutil_move os (str_strip S) (str_strip D) (world t))\<rparr>"
    by (simp add: move_item_def Let_def split: prod.splits option.splits)
  have 3: "os_path_isdir os (str_strip D) (world t) \<longrightarrow>
      str_strip D \<noteq> [] \<longrightarrow> last (str_strip D) \<noteq> CHR ''/'' \<longrightarrow>
      str_strip S = dir @ ''/'' @ name \<longrightarrow> CHR ''/'' \<notin> set name \<longrightarrow>
      snd (move_item os S D t)
        = t\<lparr>world := snd (shutil_move os (dir @ ''/'' @ name) (str_strip D @ ''/'' @ name)
                             (world t))\<rparr>"
  proof (intro impI)
    assume isdir: "os_path_isdir os (str_strip D) (world t)"
      and ne: "str_strip D \<noteq> []" and slash: "last (str_strip D) \<noteq> CHR ''/''"
      and src: "str_strip S = dir @ ''/'' @ name" and name: "CHR ''/'' \<notin> set name"
    have "path_join (str_strip D) (basename (str_strip S)) = str_strip D @ ''/'' @ name"
      by (simp only: src basename_after_slash[OF name] path_join_plain[OF ne slash name])
    then show "snd (move_item os S D t)
        = t\<lparr>world := snd (shutil_move os (dir @ ''/'' @ name) (str_strip D @ ''/'' @ name)
                             (world t))\<rparr>"
      using 1 isdir src by simp
  qed
  have 4: "os_path_isdir os (str_strip D) (world t) \<longrightarrow>
      str_strip D \<noteq> [] \<longrightarrow> last (str_strip D) \<noteq> CHR ''/'' \<longrightarrow>
      CHR ''/'' \<notin> set (str_strip S) \<longrightarrow>
      snd (move_item os S D t)
        = t\<lparr>world := snd (shutil_move os (str_strip S) (str_strip D @ ''/'' @ str_strip S)
                             (world t))\<rparr>"
  proof (intro impI)
    assume isdir: "os_path_isdir os (str_strip D) (world t)"
      and ne: "str_strip D \<noteq> []" and slash: "last (str_strip D) \<noteq> CHR ''/''"
      and plain: "CHR ''/'' \<notin> set (str_strip S)"
    have "path_join (str_strip D) (basename (str_strip S)) = str_strip D @ ''/'' @ str_strip S"
      by (simp only: basename_plain[OF plain] path_join_plain[OF ne slash plain])
    then show "snd (move_item os S D t)
        = t\<lparr>world := snd (shutil_move os (str_strip S) (str_strip D @ ''/'' @ str_strip S)
                             (world t))\<rparr>"
      using 1 isdir by simp
  qed
  from 1 2 3 4 5 6 7 8 9 show ?thesis by (intro conjI)
qed

theorem move_destination_path_witness:
  "execute_command demo_os AITerminal ''nlp move report.pdf to Documents'' demo_terminal
     = (Inr ''Moved report.pdf to Documents'',
        \<lparr>command_history = [''nlp move report.pdf to Documents''],
         world = \<lparr>dirs = [''Documents''], files = [''Documents/report.pdf'']\<rparr>,
         autocomplete_enabled = False\<rparr>)
   \<and> snd (move_item demo_os ''report.pdf'' ''Documents'' demo_terminal)
     = demo_terminal\<lparr>world := \<lparr>dirs = [''Documents''], files = [''Documents/report.pdf'']\<rparr>\<rparr>
   \<and> snd (move_item demo_os ''report.pdf'' ''Documents''
             (demo_terminal\<lparr>world := \<lparr>dirs = [], files = [''report.pdf'']\<rparr>\<rparr>))
     = demo_terminal\<lparr>world := \<lparr>dirs = [], files = [''Documents'']\<rparr>\<rparr>
   \<and> snd (move_item demo_os ''sub/report.pdf'' ''Documents''
             (demo_terminal\<lparr>world := \<lparr>dirs = [''Documents'', ''sub''], files = [''sub/report.pdf'']\<rparr>\<rparr>))
     = demo_terminal\<lparr>world := \<lparr>dirs = [''Documents'', ''sub''], files = [''Documents/report.pdf'']\<rparr>\<rparr>
   \<and> execute_command demo_os AITerminal ''nlp move sub/report.pdf to Documents''
         (demo_terminal\<lparr>world := \<lparr>dirs = [''Documents'', ''sub''], files = [''sub/report.pdf'']\<rparr>\<rparr>)
     = (Inr ''Moved sub/report.pdf to Documents'',
        \<lparr>command_history = [''nlp move sub/report.pdf to Documents''],
         world = \<lparr>dirs = [''Documents'', ''sub''], files = [''Documents/report.pdf'']\<rparr>,
         autocomplete_enabled = False\<rparr>)"
proof -
  let ?exec = "execute_command demo_os AITerminal"
  let ?t = "demo_terminal\<lparr>world := \<lparr>dirs = [], files = [''report.pdf'']\<rparr>\<rparr>"
  let ?u = "demo_terminal\<lparr>world := \<lparr>dirs = [''Documents'', ''sub''], files = [''sub/report.pdf'']\<rparr>\<rparr>"
  note T1 = move_destination_path[of demo_os "''Documents''" demo_terminal "''report.pdf''"
      "[]" "[]" ?exec]
  note T2 = move_destination_path[of demo_os "''Documents''" ?t "''report.pdf''" "[]" "[]" ?exec]
  note T3 = move_destination_path[of demo_os "''Documents''" ?u "''sub/report.pdf''"
      "''sub''" "''report.pdf''" ?exec]
  have d1: "os_path_isdir demo_os (str_strip ''Documents'') (world demo_terminal)" by code_simp
  have d2: "\<not> os_path_isdir demo_os (str_strip ''Documents'') (world ?t)" by code_simp
  have d3: "os_path_isdir demo_os (str_strip ''Documents'') (world ?u)" by code_simp
  have n3: "str_strip ''Documents'' \<noteq> []" by code_simp
  have l3: "last (str_strip ''Documents'') \<noteq> CHR ''/''" by code_simp
  have s3: "str_strip ''sub/report.pdf'' = ''sub'' @ ''/'' @ ''report.pdf''" by code_simp
  have c3: "CHR ''/'' \<notin> set ''report.pdf''" by code_simp
  have 1: "snd (move_item demo_os ''report.pdf'' ''Documents'' demo_terminal)
        = demo_terminal\<lparr>world := snd (shutil_move demo_os (str_strip ''report.pdf'')
             (path_join (str_strip ''Documents'') (basename (str_strip ''report.pdf'')))
             (world demo_terminal))\<rparr>"
    using T1 d1 by blast
  have 2: "snd (move_item demo_os ''report.pdf'' ''Documents'' ?t)
        = ?t\<lparr>world := snd (shutil_move demo_os (str_strip ''report.pdf'') (str_strip ''Documents'')
             (world ?t))\<rparr>"
    using T2 d2 by blast
  have 3: "snd (move_item demo_os ''sub/report.pdf'' ''Documents'' ?u)
        = ?u\<lparr>world := snd (shutil_move demo_os (''sub'' @ ''/'' @ ''report.pdf'')
             (str_strip ''Documents'' @ ''/'' @ ''report.pdf'') (world ?u))\<rparr>"
    using T3 d3 n3 l3 s3 c3 by blast
  have e1: "demo_terminal\<lparr>world := snd (shutil_move demo_os (str_strip ''report.pdf'')
             (path_join (str_strip ''Documents'') (basename (str_strip ''report.pdf'')))
             (world demo_terminal))\<rparr>
     = demo_terminal\<lparr>world := \<lparr>dirs = [''Documents''], files = [''Documents/report.pdf'']\<rparr>\<rparr>"
    by code_simp
  have e2: "?t\<lparr>world := snd (shutil_move demo_os (str_strip ''report.pdf'') (str_strip ''Documents'')
             (world ?t))\<rparr>
     = demo_terminal\<lparr>world := \<lparr>dirs = [], files = [''Documents'']\<rparr>\<rparr>"
    by code_simp
  have e3: "?u\<lparr>world := snd (shutil_move demo_os (''sub'' @ ''/'' @ ''report.pdf'')
             (str_strip ''Documents'' @ ''/'' @ ''report.pdf'') (world ?u))\<rparr>
     = demo_terminal\<lparr>world := \<lparr>dirs = [''Documents'', ''sub''], files = [''Documents/report.pdf'']\<rparr>\<rparr>"
    by code_simp
  have 0: "execute_command demo_os AITerminal ''nlp move report.pdf to Documents'' demo_terminal
     = (Inr ''Moved report.pdf to Documents'',
        \<lparr>command_history = [''nlp move report.pdf to Documents''],
         world = \<lparr>dirs = [''Documents''], files = [''Documents/report.pdf'']\<rparr>,
         autocomplete_enabled = False\<rparr>)"
    by code_simp
  have 4: "execute_command demo_os AITerminal ''nlp move sub/report.pdf to Documents'' ?u
     = (Inr ''Moved sub/report.pdf to Documents'',
        \<lparr>command_history = [''nlp move sub/report.pdf to Documents''],
         world = \<lparr>dirs = [''Documents'', ''sub''], files = [''Documents/report.pdf'']\<rparr>,
         autocomplete_enabled = False\<rparr>)"
    by code_simp
  show ?thesis
    using 0 1 2 3 4 unfolding e1 e2 e3 by (intro conjI)
qed

lemma path_is_no_flag:
  assumes "\<not> startswith ''-'' path"
  shows "''-r'' \<noteq> path" "''--recursive'' \<noteq> path" "''-f'' \<noteq> path" "''--force'' \<noteq> path"
  using assms by auto

text \<open>
  \<^bold>\<open>C8.\<close>  The remove adapter trims its slot and asks whether it names an existing
  directory: if so it hands \<open>rm -r\<close> and the quoted name to the terminal, otherwise
  \<open>rm\<close> and the quoted name.  The first line is tokenized with \<open>-r\<close> as an argument of
  its own, which is what \<open>RmCommand.execute\<close> reads as the recursive flag.  The removal
  handler, given a directory and no flag, removes nothing and reports
  \<open>Is a directory\<close>; given the flag, it removes the tree.
\<close>

theorem remove_branches_on_directory:
  "call_handler os exec H_remove_item [target] t
     = (if os_path_isdir os (str_strip target) (world t)
        then exec (''rm -r '' @ shlex_quote (str_strip target)) t
        else exec (''rm '' @ shlex_quote (str_strip target)) t)
   \<and> parse_command (''rm -r '' @ q) = (''rm'', ''-r'' # str_split q)
   \<and> parse_command (''rm '' @ q) = (''rm'', str_split q)
   \<and> (os_path_isdir os path w \<longrightarrow> \<not> startswith ''-'' path \<longrightarrow>
        rm_execute os [path] w
          = (''rm: cannot remove '' @ [SQ] @ path @ [SQ] @ '': Is a directory'', w))
   \<and> (os_path_isdir os path w \<longrightarrow> \<not> startswith ''-'' path \<longrightarrow>
        shutil_rmtree os path w = (None, w') \<longrightarrow>
        rm_execute os [''-r'', path] w = ([], w'))"
proof (intro conjI impI)
  show "call_handler os exec H_remove_item [target] t
     = (if os_path_isdir os (str_strip target) (world t)
        then exec (''rm -r '' @ shlex_quote (str_strip target)) t
        else exec (''rm '' @ shlex_quote (str_strip target)) t)"
    by (simp add: call_handler_def call1_def remove_item_def Let_def)
  show "parse_command (''rm -r '' @ q) = (''rm'', ''-r'' # str_split q)"
    by (simp add: parse_command_split str_split_def isspace_def)
  show "parse_command (''rm '' @ q) = (''rm'', str_split q)"
    by (simp add: parse_command_split str_split_def isspace_def)
next
  assume "os_path_isdir os path w" "\<not> startswith ''-'' path"
  then show "rm_execute os [path] w
          = (''rm: cannot remove '' @ [SQ] @ path @ [SQ] @ '': Is a directory'', w)"
    by (simp add: rm_execute_def rm_prefix_def Let_def path_is_no_flag)
next
  assume "os_path_isdir os path w" "\<not> startswith ''-'' path" "shutil_rmtree os path w = (None, w')"
  then show "rm_execute os [''-r'', path] w = ([], w')"
    by (simp add: rm_execute_def Let_def path_is_no_flag)
qed

theorem remove_branches_on_directory_witness:
  "call_handler demo_os (execute_command demo_os AITerminal) H_remove_item [''Documents''] demo_terminal
     = execute_command demo_os AITerminal ''rm -r Documents'' demo_terminal
   \<and> call_handler demo_os (execute_command demo_os AITerminal) H_remove_item [''report.pdf''] demo_terminal
     = execute_command demo_os AITerminal ''rm report.pdf'' demo_terminal
   \<and> execute_command demo_os AITerminal ''nlp remove directory Documents'' demo_terminal
     = (Inr [], \<lparr>command_history = [''nlp remove directory Documents'', ''rm -r Documents''],
                 world = \<lparr>dirs = [], files = [''report.pdf'']\<rparr>,
                 autocomplete_enabled = False\<rparr>)
   \<and> execute_command demo_os AITerminal ''nlp delete report.pdf'' demo_terminal
     = (Inr [], \<lparr>command_history = [''nlp delete report.pdf'', ''rm report.pdf''],
                 world = \<lparr>dirs = [''Documents''], files = []\<rparr>,
                 autocomplete_enabled = False\<rparr>)
   \<and> rm_execute demo_os [''Documents''] (world demo_terminal)
     = (''rm: cannot remove '' @ [SQ] @ ''Documents'' @ [SQ] @ '': Is a directory'', world demo_terminal)"
proof -
  let ?exec = "execute_command demo_os AITerminal"
  note T1 = remove_branches_on_directory[of demo_os ?exec "''Documents''" demo_terminal "[]"
      "''Documents''" "world demo_terminal" "\<lparr>dirs = [], files = [''report.pdf'']\<rparr>"]
  note T2 = remove_branches_on_directory[of demo_os ?exec "''report.pdf''" demo_terminal "[]"
      "''Documents''" "world demo_terminal" "\<lparr>dirs = [], files = [''report.pdf'']\<rparr>"]
  have d1: "os_path_isdir demo_os (str_strip ''Documents'') (world demo_terminal)" by code_simp
  have d2: "\<not> os_path_isdir demo_os (str_strip ''report.pdf'') (world demo_terminal)" by code_simp
  have d': "os_path_isdir demo_os ''Documents'' (world demo_terminal)" by code_simp
  have n: "\<not> startswith ''-'' ''Documents''" by code_simp
  have q1: "''rm -r '' @ shlex_quote (str_strip ''Documents'') = ''rm -r Documents''" by code_simp
  have q2: "''rm '' @ shlex_quote (str_strip ''report.pdf'') = ''rm report.pdf''" by code_simp
  have 1: "call_handler demo_os ?exec H_remove_item [''Documents''] demo_terminal
             = ?exec ''rm -r Documents'' demo_terminal"
    using T1 d1 by (simp only: q1 if_True)
  have 2: "call_handler demo_os ?exec H_remove_item [''report.pdf''] demo_terminal
             = ?exec ''rm report.pdf'' demo_terminal"
    using T2 d2 by (simp only: q2 if_False)
  have 3: "execute_command demo_os AITerminal ''nlp remove directory Documents'' demo_terminal
     = (Inr [], \<lparr>command_history = [''nlp remove directory Documents'', ''rm -r Documents''],
                 world = \<lparr>dirs = [], files = [''report.pdf'']\<rparr>,
                 autocomplete_enabled = False\<rparr>)"
    by code_simp
  have 4: "execute_command demo_os AITerminal ''nlp delete report.pdf'' demo_terminal
     = (Inr [], \<lparr>command_history = [''nlp delete report.pdf'', ''rm report.pdf''],
                 world = \<lparr>dirs = [''Documents''], files = []\<rparr>,
                 autocomplete_enabled = False\<rparr>)"
    by code_simp
  have 5: "rm_execute demo_os [''Documents''] (world demo_terminal)
     = (''rm: cannot remove '' @ [SQ] @ ''Documents'' @ [SQ] @ '': Is a directory'', world demo_terminal)"
    using T1 d' n by blast
  from 1 2 3 4 5 show ?thesis by (intro conjI)
qed

text \<open>
  \<^bold>\<open>C2.\<close>  The adapters quote a slot with \<open>shlex.quote\<close>, but \<open>parse_command\<close> splits
  the composed line at whitespace and knows no quoting.  For the utterance
  \<open>create a new folder called Projects Folder\<close> the slot is \<open>Projects Folder\<close>, the
  composed line is \<open>mkdir 'Projects Folder'\<close>, and the dispatcher executes \<open>mkdir\<close> on
  the two arguments \<open>'Projects\<close> and \<open>Folder'\<close>.
\<close>

theorem quoted_slot_is_split:
  "re_search (fst (command_patterns ! 0)) ''create a new folder called Projects Folder''
     = Some [''Projects Folder'']
   \<and> shlex_quote (str_strip ''Projects Folder'') = [SQ] @ ''Projects Folder'' @ [SQ]
   \<and> parse_command (''mkdir '' @ shlex_quote (str_strip ''Projects Folder''))
     = (''mkdir'', [[SQ] @ ''Projects'', ''Folder'' @ [SQ]])
   \<and> execute_command demo_os AITerminal ''nlp create a new folder called Projects Folder'' demo_terminal
     = command_execute demo_os (execute_command demo_os AITerminal) AITerminal MkdirCommand
         [[SQ] @ ''Projects'', ''Folder'' @ [SQ]]
         (demo_terminal\<lparr>command_history :=
            [''nlp create a new folder called Projects Folder'',
             ''mkdir '' @ [SQ] @ ''Projects Folder'' @ [SQ]]\<rparr>)"
  by code_simp

lemma shlex_safe_not_space: "shlex_safe c \<Longrightarrow> \<not> isspace c"
  by (auto simp: isspace_def shlex_safe_def ascii_alnum_def in_range_def)

text \<open>What does hold of the quoting: an argument made of safe characters only is left as it
  is by \<open>shlex.quote\<close> and comes back as the one argument of the composed line.\<close>

lemma safe_slot_round_trip:
  assumes "arg \<noteq> []" and "list_all shlex_safe arg"
  shows "parse_command (''mkdir '' @ shlex_quote arg) = (''mkdir'', [arg])"
proof -
  have q: "shlex_quote arg = arg"
    using assms by (simp add: shlex_quote_def)
  have ns: "\<forall>c \<in> set arg. \<not> isspace c"
    using assms(2) by (auto simp: list_all_iff shlex_safe_not_space)
  have "str_split (''mkdir '' @ arg) = ''mkdir'' # str_split arg"
    using str_split_head[of "''mkdir''" arg] by (simp add: isspace_def)
  also have "str_split arg = [arg]"
    using assms(1) ns by (rule str_split_word)
  finally show ?thesis
    by (simp add: parse_command_split q)
qed

lemma safe_slot_round_trip_witness:
  "parse_command (''mkdir '' @ shlex_quote ''Projects'') = (''mkdir'', [''Projects''])"
proof -
  have a: "''Projects'' \<noteq> []" by simp
  have b: "list_all shlex_safe ''Projects''" by code_simp
  show ?thesis by (rule safe_slot_round_trip[OF a b])
qed

end
